theory Spec2Isabelle
  imports Main "HOL-Library.Multiset"
begin

section \<open>Deferred blocks of the template compiler (r3_deferred_blocks.ts)\<close>

text \<open>
  The module turns a generic \<open>@defer\<close> block of the HTML syntax tree, together with the
  blocks connected to it, into a \<open>DeferredBlock\<close> node and a list of \<open>ParseError\<close>
  diagnostics. The embedding follows the source function by function.

  \<^item> A JavaScript string is a \<open>string\<close>; a \<open>char\<close> stands for a UTF-16 code unit below
    256, so the theorems quantify over the strings made of such code units.
  \<^item> \<open>throw new Error(msg)\<close> is the value \<open>Inl (Error msg)\<close> of a sum type; the
    \<open>try\<close>/\<open>catch\<close> of \<open>parseConnectedBlocks\<close> is a case distinction on it.
  \<^item> The arrays and objects mutated in place (\<open>errors\<close>, \<open>triggers\<close>,
    \<open>prefetchTriggers\<close>) are passed in and returned updated.
  \<^item> The functions imported from other modules (\<open>html.visitAll\<close> and the four functions
    of \<open>r3_deferred_triggers\<close>) are parameters, collected in the record \<open>Imports\<close>;
    each of them may raise.
  \<^item> Source spans, child nodes, visited nodes, numbers, the visitor, the binding parser
    and the parsed triggers are opaque: type variables \<open>'s\<close>, \<open>'c\<close>, \<open>'v\<close>, \<open>'n\<close>,
    \<open>'vis\<close>, \<open>'bp\<close>, \<open>'t\<close>.
\<close>

subsection \<open>Data\<close>

datatype exn = Error (message: string)

datatype 's ParseError = ParseError 's string

datatype 's BlockParameter = BlockParameter (expression: string) (paramSourceSpan: 's)

record ('c, 's) Block =
  name :: string
  parameters :: "'s BlockParameter list"
  children :: "'c list"
  sourceSpan :: 's
  startSourceSpan :: 's
  endSourceSpan :: 's

datatype ('v, 'n, 's) DeferredBlockPlaceholder =
  DeferredBlockPlaceholder "'v list" (placeholderMinimumTime: "'n option") 's 's 's

datatype ('v, 'n, 's) DeferredBlockLoading =
  DeferredBlockLoading "'v list" (loadingAfterTime: "'n option")
    (loadingMinimumTime: "'n option") 's 's 's

datatype ('v, 's) DeferredBlockError =
  DeferredBlockError "'v list" 's 's 's

text \<open>\<open>t.DeferredBlockTriggers\<close>: an object with optional keys, one per kind of trigger.\<close>

type_synonym 't DeferredBlockTriggers = "string \<rightharpoonup> 't"

datatype ('v, 'n, 's, 't) DeferredBlock =
  DeferredBlock "'v list" "'t DeferredBlockTriggers" "'t DeferredBlockTriggers"
    "('v, 'n, 's) DeferredBlockPlaceholder option"
    "('v, 'n, 's) DeferredBlockLoading option"
    "('v, 's) DeferredBlockError option" 's 's 's

text \<open>The imported functions. Those that mutate an argument return its new value.\<close>

record ('vis, 'c, 'v, 'n, 's, 'bp, 't) Imports =
  visitAll :: "'vis \<Rightarrow> 'c list \<Rightarrow> 'c list \<Rightarrow> exn + 'v list"
  getTriggerParametersStart :: "string \<Rightarrow> exn + int"
  parseDeferredTime :: "string \<Rightarrow> exn + 'n option"
  parseWhenTrigger :: "'s BlockParameter \<Rightarrow> 'bp \<Rightarrow> 't DeferredBlockTriggers \<Rightarrow>
    's ParseError list \<Rightarrow> exn + 't DeferredBlockTriggers \<times> 's ParseError list"
  parseOnTrigger :: "'s BlockParameter \<Rightarrow> 't DeferredBlockTriggers \<Rightarrow> 's ParseError list \<Rightarrow>
    ('v, 'n, 's) DeferredBlockPlaceholder option \<Rightarrow>
    exn + 't DeferredBlockTriggers \<times> 's ParseError list"

text \<open>The local variables of \<open>parseConnectedBlocks\<close> and the shared \<open>errors\<close> array.\<close>

record ('v, 'n, 's) ConnectedBlocks =
  placeholder :: "('v, 'n, 's) DeferredBlockPlaceholder option"
  loading :: "('v, 'n, 's) DeferredBlockLoading option"
  error :: "('v, 's) DeferredBlockError option"
  errors :: "'s ParseError list"

subsection \<open>Strings and the keyword patterns\<close>

text \<open>
  The class \<open>\s\<close> of a regular expression without the \<open>u\<close> flag: of the code units
  below 256 it holds tab, line feed, vertical tab, form feed, carriage return, space and
  the no-break space.
\<close>

definition isWhitespace :: "char \<Rightarrow> bool" where
  "isWhitespace c \<longleftrightarrow>
     c = CHR 0x09 \<or> c = CHR 0x0A \<or> c = CHR 0x0B \<or> c = CHR 0x0C \<or> c = CHR 0x0D \<or>
     c = CHR 0x20 \<or> c = CHR 0xA0"

text \<open>A literal at the start of the input: what is left after it, if it is there.\<close>

fun stripPrefix :: "string \<Rightarrow> string \<Rightarrow> string option" where
  "stripPrefix [] s = Some s"
| "stripPrefix (k # ks) [] = None"
| "stripPrefix (k # ks) (c # cs) = (if k = c then stripPrefix ks cs else None)"

text \<open>One \<open>\s\<close> at the start of the input.\<close>

fun startsWithWhitespace :: "string \<Rightarrow> bool" where
  "startsWithWhitespace [] = False"
| "startsWithWhitespace (c # cs) = isWhitespace c"

text \<open>\<open>/^kw\s/.test(s)\<close>\<close>

definition keywordPattern :: "string \<Rightarrow> string \<Rightarrow> bool" where
  "keywordPattern kw s =
     (case stripPrefix kw s of None \<Rightarrow> False | Some r \<Rightarrow> startsWithWhitespace r)"

text \<open>
  \<open>/^prefetch\s+kw\s/.test(s)\<close>. The keyword starts with a letter, so \<open>\s+\<close> can only
  match the whole run of whitespace after \<open>prefetch\<close>.
\<close>

definition prefetchPattern :: "string \<Rightarrow> string \<Rightarrow> bool" where
  "prefetchPattern kw s =
     (case stripPrefix ''prefetch'' s of
        None \<Rightarrow> False
      | Some r \<Rightarrow> startsWithWhitespace r \<and> keywordPattern kw (dropWhile isWhitespace r))"

definition PREFETCH_WHEN_PATTERN :: "string \<Rightarrow> bool" where
  "PREFETCH_WHEN_PATTERN s = prefetchPattern ''when'' s"

definition PREFETCH_ON_PATTERN :: "string \<Rightarrow> bool" where
  "PREFETCH_ON_PATTERN s = prefetchPattern ''on'' s"

definition MINIMUM_PARAMETER_PATTERN :: "string \<Rightarrow> bool" where
  "MINIMUM_PARAMETER_PATTERN s = keywordPattern ''minimum'' s"

definition AFTER_PARAMETER_PATTERN :: "string \<Rightarrow> bool" where
  "AFTER_PARAMETER_PATTERN s = keywordPattern ''after'' s"

definition WHEN_PARAMETER_PATTERN :: "string \<Rightarrow> bool" where
  "WHEN_PARAMETER_PATTERN s = keywordPattern ''when'' s"

definition ON_PARAMETER_PATTERN :: "string \<Rightarrow> bool" where
  "ON_PARAMETER_PATTERN s = keywordPattern ''on'' s"

text \<open>
  \<open>s.slice(start)\<close>: a negative start counts from the end, and the start is clamped to
  the string.
\<close>

definition slice :: "string \<Rightarrow> int \<Rightarrow> string" where
  "slice s start =
     (let len = int (length s);
          k = (if start < 0 then max (len + start) 0 else min start len)
      in drop (nat k) s)"

subsection \<open>The connected blocks\<close>

definition isConnectedDeferLoopBlock :: "string \<Rightarrow> bool" where
  "isConnectedDeferLoopBlock n \<longleftrightarrow> n = ''placeholder'' \<or> n = ''loading'' \<or> n = ''error''"

text \<open>
  \<open>parseDeferredTime(param.expression.slice(getTriggerParametersStart(param.expression)))\<close>
\<close>

definition parsedTimeOf ::
  "('vis, 'c, 'v, 'n, 's, 'bp, 't) Imports \<Rightarrow> 's BlockParameter \<Rightarrow> exn + 'n option" where
  "parsedTimeOf I param =
     (case getTriggerParametersStart I (expression param) of
        Inl e \<Rightarrow> Inl e
      | Inr start \<Rightarrow> parseDeferredTime I (slice (expression param) start))"

text \<open>The loop of \<open>parsePlaceholderBlock\<close> over the parameters; the state is \<open>minimumTime\<close>.\<close>

fun parsePlaceholderParameters ::
  "('vis, 'c, 'v, 'n, 's, 'bp, 't) Imports \<Rightarrow> 's BlockParameter list \<Rightarrow> 'n option \<Rightarrow>
   exn + 'n option" where
  "parsePlaceholderParameters I [] minimumTime = Inr minimumTime"
| "parsePlaceholderParameters I (param # params) minimumTime =
     (if MINIMUM_PARAMETER_PATTERN (expression param) then
        if minimumTime \<noteq> None then
          Inl (Error ''@placeholder block can only have one \"minimum\" parameter'')
        else
          (case parsedTimeOf I param of
             Inl e \<Rightarrow> Inl e
           | Inr None \<Rightarrow> Inl (Error ''Could not parse time value of parameter \"minimum\"'')
           | Inr (Some parsedTime) \<Rightarrow> parsePlaceholderParameters I params (Some parsedTime))
      else
        Inl (Error (''Unrecognized parameter in @placeholder block: \"'' @ expression param @
                    ''\"'')))"

definition parsePlaceholderBlock ::
  "('vis, 'c, 'v, 'n, 's, 'bp, 't) Imports \<Rightarrow> ('c, 's) Block \<Rightarrow> 'vis \<Rightarrow>
   exn + ('v, 'n, 's) DeferredBlockPlaceholder" where
  "parsePlaceholderBlock I ast visitor =
     (case parsePlaceholderParameters I (parameters ast) None of
        Inl e \<Rightarrow> Inl e
      | Inr minimumTime \<Rightarrow>
          (case visitAll I visitor (children ast) (children ast) of
             Inl e \<Rightarrow> Inl e
           | Inr visited \<Rightarrow>
               Inr (DeferredBlockPlaceholder visited minimumTime (sourceSpan ast)
                      (startSourceSpan ast) (endSourceSpan ast))))"

text \<open>
  The loop of \<open>parseLoadingBlock\<close>; the state is the pair of \<open>afterTime\<close> and
  \<open>minimumTime\<close>.
\<close>

fun parseLoadingParameters ::
  "('vis, 'c, 'v, 'n, 's, 'bp, 't) Imports \<Rightarrow> 's BlockParameter list \<Rightarrow>
   'n option \<times> 'n option \<Rightarrow> exn + 'n option \<times> 'n option" where
  "parseLoadingParameters I [] (afterTime, minimumTime) = Inr (afterTime, minimumTime)"
| "parseLoadingParameters I (param # params) (afterTime, minimumTime) =
     (if AFTER_PARAMETER_PATTERN (expression param) then
        if afterTime \<noteq> None then
          Inl (Error ''@loading block can only have one \"after\" parameter'')
        else
          (case parsedTimeOf I param of
             Inl e \<Rightarrow> Inl e
           | Inr None \<Rightarrow> Inl (Error ''Could not parse time value of parameter \"after\"'')
           | Inr (Some parsedTime) \<Rightarrow>
               parseLoadingParameters I params (Some parsedTime, minimumTime))
      else if MINIMUM_PARAMETER_PATTERN (expression param) then
        if minimumTime \<noteq> None then
          Inl (Error ''@loading block can only have one \"minimum\" parameter'')
        else
          (case parsedTimeOf I param of
             Inl e \<Rightarrow> Inl e
           | Inr None \<Rightarrow> Inl (Error ''Could not parse time value of parameter \"minimum\"'')
           | Inr (Some parsedTime) \<Rightarrow>
               parseLoadingParameters I params (afterTime, Some parsedTime))
      else
        Inl (Error (''Unrecognized parameter in @loading block: \"'' @ expression param @
                    ''\"'')))"

definition parseLoadingBlock ::
  "('vis, 'c, 'v, 'n, 's, 'bp, 't) Imports \<Rightarrow> ('c, 's) Block \<Rightarrow> 'vis \<Rightarrow>
   exn + ('v, 'n, 's) DeferredBlockLoading" where
  "parseLoadingBlock I ast visitor =
     (case parseLoadingParameters I (parameters ast) (None, None) of
        Inl e \<Rightarrow> Inl e
      | Inr (afterTime, minimumTime) \<Rightarrow>
          (case visitAll I visitor (children ast) (children ast) of
             Inl e \<Rightarrow> Inl e
           | Inr visited \<Rightarrow>
               Inr (DeferredBlockLoading visited afterTime minimumTime (sourceSpan ast)
                      (startSourceSpan ast) (endSourceSpan ast))))"

definition parseErrorBlock ::
  "('vis, 'c, 'v, 'n, 's, 'bp, 't) Imports \<Rightarrow> ('c, 's) Block \<Rightarrow> 'vis \<Rightarrow>
   exn + ('v, 's) DeferredBlockError" where
  "parseErrorBlock I ast visitor =
     (if length (parameters ast) > 0 then
        Inl (Error ''@error block cannot have parameters'')
      else
        (case visitAll I visitor (children ast) (children ast) of
           Inl e \<Rightarrow> Inl e
         | Inr visited \<Rightarrow>
             Inr (DeferredBlockError visited (sourceSpan ast) (startSourceSpan ast)
                    (endSourceSpan ast))))"

text \<open>\<open>errors.push(new ParseError(span, msg))\<close> on the state of the classifier.\<close>

definition pushError ::
  "'s \<Rightarrow> string \<Rightarrow> ('v, 'n, 's) ConnectedBlocks \<Rightarrow> ('v, 'n, 's) ConnectedBlocks" where
  "pushError span msg st = st\<lparr>errors := errors st @ [ParseError span msg]\<rparr>"

text \<open>
  The \<open>switch\<close> inside the \<open>try\<close> of \<open>parseConnectedBlocks\<close>. A sub-parser that throws
  does so before the assignment, so the state is unchanged when the result is \<open>Inl\<close>.
\<close>

definition switchConnectedBlock ::
  "('vis, 'c, 'v, 'n, 's, 'bp, 't) Imports \<Rightarrow> 'vis \<Rightarrow> ('c, 's) Block \<Rightarrow>
   ('v, 'n, 's) ConnectedBlocks \<Rightarrow> exn + ('v, 'n, 's) ConnectedBlocks" where
  "switchConnectedBlock I visitor block st =
     (if name block = ''placeholder'' then
        if placeholder st \<noteq> None then
          Inr (pushError (startSourceSpan block)
                 ''@defer block can only have one @placeholder block'' st)
        else
          (case parsePlaceholderBlock I block visitor of
             Inl e \<Rightarrow> Inl e
           | Inr node \<Rightarrow> Inr (st\<lparr>placeholder := Some node\<rparr>))
      else if name block = ''loading'' then
        if loading st \<noteq> None then
          Inr (pushError (startSourceSpan block)
                 ''@defer block can only have one @loading block'' st)
        else
          (case parseLoadingBlock I block visitor of
             Inl e \<Rightarrow> Inl e
           | Inr node \<Rightarrow> Inr (st\<lparr>loading := Some node\<rparr>))
      else if name block = ''error'' then
        if error st \<noteq> None then
          Inr (pushError (startSourceSpan block)
                 ''@defer block can only have one @error block'' st)
        else
          (case parseErrorBlock I block visitor of
             Inl e \<Rightarrow> Inl e
           | Inr node \<Rightarrow> Inr (st\<lparr>error := Some node\<rparr>))
      else Inr st)"

text \<open>
  The \<open>for\<close> loop of \<open>parseConnectedBlocks\<close>: an unrecognized name pushes a diagnostic and
  leaves the loop (\<open>break\<close>); an exception of the \<open>switch\<close> is caught and pushed as a
  diagnostic at the start span of the block, and the loop goes on.
\<close>

fun parseConnectedBlocksLoop ::
  "('vis, 'c, 'v, 'n, 's, 'bp, 't) Imports \<Rightarrow> 'vis \<Rightarrow> ('c, 's) Block list \<Rightarrow>
   ('v, 'n, 's) ConnectedBlocks \<Rightarrow> ('v, 'n, 's) ConnectedBlocks" where
  "parseConnectedBlocksLoop I visitor [] st = st"
| "parseConnectedBlocksLoop I visitor (block # blocks) st =
     (if \<not> isConnectedDeferLoopBlock (name block) then
        pushError (startSourceSpan block) (''Unrecognized block \"@'' @ name block @ ''\"'') st
      else
        parseConnectedBlocksLoop I visitor blocks
          (case switchConnectedBlock I visitor block st of
             Inl e \<Rightarrow> pushError (startSourceSpan block) (message e) st
           | Inr st' \<Rightarrow> st'))"

definition parseConnectedBlocks ::
  "('vis, 'c, 'v, 'n, 's, 'bp, 't) Imports \<Rightarrow> ('c, 's) Block list \<Rightarrow> 's ParseError list \<Rightarrow>
   'vis \<Rightarrow> ('v, 'n, 's) ConnectedBlocks" where
  "parseConnectedBlocks I connectedBlocks errs visitor =
     parseConnectedBlocksLoop I visitor connectedBlocks
       \<lparr>placeholder = None, loading = None, error = None, errors = errs\<rparr>"

subsection \<open>The triggers of the primary block\<close>

text \<open>
  The loop of \<open>parsePrimaryTriggers\<close>; the state is \<open>triggers\<close>, \<open>prefetchTriggers\<close> and
  the shared \<open>errors\<close>.
\<close>

fun parsePrimaryTriggersLoop ::
  "('vis, 'c, 'v, 'n, 's, 'bp, 't) Imports \<Rightarrow> 'bp \<Rightarrow>
   ('v, 'n, 's) DeferredBlockPlaceholder option \<Rightarrow> 's BlockParameter list \<Rightarrow>
   't DeferredBlockTriggers \<times> 't DeferredBlockTriggers \<times> 's ParseError list \<Rightarrow>
   exn + 't DeferredBlockTriggers \<times> 't DeferredBlockTriggers \<times> 's ParseError list" where
  "parsePrimaryTriggersLoop I bindingParser ph [] st = Inr st"
| "parsePrimaryTriggersLoop I bindingParser ph (param # params)
     (triggers, prefetchTriggers, errs) =
     (if WHEN_PARAMETER_PATTERN (expression param) then
        (case parseWhenTrigger I param bindingParser triggers errs of
           Inl e \<Rightarrow> Inl e
         | Inr (triggers', errs') \<Rightarrow>
             parsePrimaryTriggersLoop I bindingParser ph params
               (triggers', prefetchTriggers, errs'))
      else if ON_PARAMETER_PATTERN (expression param) then
        (case parseOnTrigger I param triggers errs ph of
           Inl e \<Rightarrow> Inl e
         | Inr (triggers', errs') \<Rightarrow>
             parsePrimaryTriggersLoop I bindingParser ph params
               (triggers', prefetchTriggers, errs'))
      else if PREFETCH_WHEN_PATTERN (expression param) then
        (case parseWhenTrigger I param bindingParser prefetchTriggers errs of
           Inl e \<Rightarrow> Inl e
         | Inr (prefetchTriggers', errs') \<Rightarrow>
             parsePrimaryTriggersLoop I bindingParser ph params
               (triggers, prefetchTriggers', errs'))
      else if PREFETCH_ON_PATTERN (expression param) then
        (case parseOnTrigger I param prefetchTriggers errs ph of
           Inl e \<Rightarrow> Inl e
         | Inr (prefetchTriggers', errs') \<Rightarrow>
             parsePrimaryTriggersLoop I bindingParser ph params
               (triggers, prefetchTriggers', errs'))
      else
        parsePrimaryTriggersLoop I bindingParser ph params
          (triggers, prefetchTriggers, errs @ [ParseError (paramSourceSpan param)
             ''Unrecognized trigger'']))"

definition parsePrimaryTriggers ::
  "('vis, 'c, 'v, 'n, 's, 'bp, 't) Imports \<Rightarrow> 's BlockParameter list \<Rightarrow> 'bp \<Rightarrow>
   's ParseError list \<Rightarrow> ('v, 'n, 's) DeferredBlockPlaceholder option \<Rightarrow>
   exn + 't DeferredBlockTriggers \<times> 't DeferredBlockTriggers \<times> 's ParseError list" where
  "parsePrimaryTriggers I params bindingParser errs ph =
     parsePrimaryTriggersLoop I bindingParser ph params (Map.empty, Map.empty, errs)"

subsection \<open>The entry point\<close>

definition createDeferredBlock ::
  "('vis, 'c, 'v, 'n, 's, 'bp, 't) Imports \<Rightarrow> ('c, 's) Block \<Rightarrow> ('c, 's) Block list \<Rightarrow>
   'vis \<Rightarrow> 'bp \<Rightarrow> exn + ('v, 'n, 's, 't) DeferredBlock \<times> 's ParseError list" where
  "createDeferredBlock I ast connectedBlocks visitor bindingParser =
     (let connected = parseConnectedBlocks I connectedBlocks [] visitor in
      case parsePrimaryTriggers I (parameters ast) bindingParser (errors connected)
             (placeholder connected) of
        Inl e \<Rightarrow> Inl e
      | Inr (triggers, prefetchTriggers, errs) \<Rightarrow>
          (case visitAll I visitor (children ast) (children ast) of
             Inl e \<Rightarrow> Inl e
           | Inr visited \<Rightarrow>
               Inr (DeferredBlock visited triggers prefetchTriggers (placeholder connected)
                      (loading connected) (error connected) (sourceSpan ast)
                      (startSourceSpan ast) (endSourceSpan ast), errs)))"

section \<open>Vocabulary of the statements\<close>

subsection \<open>Returning, and the three slots seen as one\<close>

text \<open>A call returns when it does not raise.\<close>

definition returns :: "exn + 'a \<Rightarrow> bool" where
  "returns r = (case r of Inl e \<Rightarrow> False | Inr x \<Rightarrow> True)"

text \<open>
  The three local variables of \<open>parseConnectedBlocks\<close> hold nodes of three classes. To
  speak of the slot of a kind whatever the kind is, a node of any of the three classes,
  the slot that a name selects, and the sub-parser that a name selects.
\<close>

datatype ('v, 'n, 's) ConnectedNode =
  PlaceholderNode "('v, 'n, 's) DeferredBlockPlaceholder"
| LoadingNode "('v, 'n, 's) DeferredBlockLoading"
| ErrorNode "('v, 's) DeferredBlockError"

definition slot ::
  "string \<Rightarrow> ('v, 'n, 's) ConnectedBlocks \<Rightarrow> ('v, 'n, 's) ConnectedNode option" where
  "slot kind st =
     (if kind = ''placeholder'' then map_option PlaceholderNode (placeholder st)
      else if kind = ''loading'' then map_option LoadingNode (loading st)
      else if kind = ''error'' then map_option ErrorNode (error st)
      else None)"

definition subParser ::
  "('vis, 'c, 'v, 'n, 's, 'bp, 't) Imports \<Rightarrow> ('c, 's) Block \<Rightarrow> 'vis \<Rightarrow>
   exn + ('v, 'n, 's) ConnectedNode" where
  "subParser I block visitor =
     (if name block = ''placeholder'' then
        map_sum id PlaceholderNode (parsePlaceholderBlock I block visitor)
      else if name block = ''loading'' then
        map_sum id LoadingNode (parseLoadingBlock I block visitor)
      else map_sum id ErrorNode (parseErrorBlock I block visitor))"

subsection \<open>Valid parameter lists\<close>

text \<open>
  A parameter has a valid time when the duration after its keyword parses. The parameter
  list of a placeholder block is valid when it is empty or one \<open>minimum\<close> parameter with
  a valid time; that of a loading block when it holds at most one \<open>after\<close> and at most
  one \<open>minimum\<close> parameter, each with a valid time, and nothing else. Below, these are
  proved to be the lists on which the loops of \<open>parsePlaceholderBlock\<close> and
  \<open>parseLoadingBlock\<close> do not throw.
\<close>

definition validTimeParameter ::
  "('vis, 'c, 'v, 'n, 's, 'bp, 't) Imports \<Rightarrow> 's BlockParameter \<Rightarrow> bool" where
  "validTimeParameter I param =
     (case parsedTimeOf I param of Inr (Some parsedTime) \<Rightarrow> True | _ \<Rightarrow> False)"

definition validPlaceholderParameters ::
  "('vis, 'c, 'v, 'n, 's, 'bp, 't) Imports \<Rightarrow> 's BlockParameter list \<Rightarrow> bool" where
  "validPlaceholderParameters I params \<longleftrightarrow>
     list_all (\<lambda>p. MINIMUM_PARAMETER_PATTERN (expression p) \<and> validTimeParameter I p) params \<and>
     length params \<le> 1"

definition validLoadingParameters ::
  "('vis, 'c, 'v, 'n, 's, 'bp, 't) Imports \<Rightarrow> 's BlockParameter list \<Rightarrow> bool" where
  "validLoadingParameters I params \<longleftrightarrow>
     list_all (\<lambda>p. (AFTER_PARAMETER_PATTERN (expression p) \<or>
                    MINIMUM_PARAMETER_PATTERN (expression p)) \<and> validTimeParameter I p) params \<and>
     length (filter (\<lambda>p. AFTER_PARAMETER_PATTERN (expression p)) params) \<le> 1 \<and>
     length (filter (\<lambda>p. MINIMUM_PARAMETER_PATTERN (expression p)) params) \<le> 1"

subsection \<open>Sample collaborators\<close>

text \<open>
  A sample of the imported functions, for the closed instances of the theorems below: a
  visitor that returns the nodes as they are, an offset function that returns the index
  of the first character after the first run of whitespace (or \<open>-1\<close>), a duration
  parser for digits followed by \<open>ms\<close>, \<open>s\<close> or nothing, and trigger parsers that
  register one key. No theorem about the program depends on them.
\<close>

definition isDigit :: "char \<Rightarrow> bool" where
  "isDigit c \<longleftrightarrow> 48 \<le> (of_char c :: nat) \<and> (of_char c :: nat) \<le> 57"

definition sampleStart :: "string \<Rightarrow> int" where
  "sampleStart s =
     (let kw = takeWhile (\<lambda>c. \<not> isWhitespace c) s;
          ws = takeWhile isWhitespace (drop (length kw) s)
      in if ws \<noteq> [] \<and> length kw + length ws < length s
         then int (length kw + length ws) else - 1)"

definition sampleTime :: "string \<Rightarrow> int option" where
  "sampleTime s =
     (let ds = takeWhile isDigit s; u = dropWhile isDigit s;
          n = foldl (\<lambda>a c. 10 * a + (int (of_char c) - 48)) 0 ds
      in if ds = [] then None
         else if u = ''ms'' \<or> u = [] then Some n
         else if u = ''s'' then Some (1000 * n)
         else None)"

definition sampleKey :: "string \<Rightarrow> string" where
  "sampleKey s = rev (takeWhile (\<lambda>c. \<not> isWhitespace c) (rev s))"

definition sampleImports :: "(unit, nat, nat, int, nat, unit, string) Imports" where
  "sampleImports =
     \<lparr>visitAll = (\<lambda>visitor nodes ctx. Inr nodes),
      getTriggerParametersStart = (\<lambda>s. Inr (sampleStart s)),
      parseDeferredTime = (\<lambda>s. Inr (sampleTime s)),
      parseWhenTrigger = (\<lambda>param bindingParser triggers errs.
        Inr (triggers(''when'' \<mapsto> slice (expression param) (sampleStart (expression param))),
             errs)),
      parseOnTrigger = (\<lambda>param triggers errs ph.
        Inr (triggers(sampleKey (expression param) \<mapsto> expression param), errs))\<rparr>"

text \<open>
  Sample blocks: spans and children are numbers. The primary block has the four kinds of
  trigger and a parameter that is none of them.
\<close>

definition samplePlaceholder :: "(nat, nat) Block" where
  "samplePlaceholder =
     \<lparr>name = ''placeholder'', parameters = [BlockParameter ''minimum 100ms'' 13],
      children = [1], sourceSpan = 10, startSourceSpan = 11, endSourceSpan = 12\<rparr>"

definition sampleLoading :: "(nat, nat) Block" where
  "sampleLoading =
     \<lparr>name = ''loading'',
      parameters = [BlockParameter ''after 1s'' 23, BlockParameter ''minimum 500ms'' 24],
      children = [2], sourceSpan = 20, startSourceSpan = 21, endSourceSpan = 22\<rparr>"

definition sampleError :: "(nat, nat) Block" where
  "sampleError =
     \<lparr>name = ''error'', parameters = [],
      children = [3], sourceSpan = 30, startSourceSpan = 31, endSourceSpan = 32\<rparr>"

definition sampleUnknown :: "(nat, nat) Block" where
  "sampleUnknown =
     \<lparr>name = ''unknown-block'', parameters = [],
      children = [4], sourceSpan = 40, startSourceSpan = 41, endSourceSpan = 42\<rparr>"

definition sampleDefer :: "(nat, nat) Block" where
  "sampleDefer =
     \<lparr>name = ''defer'',
      parameters = [BlockParameter ''when x > 0'' 3, BlockParameter ''on idle'' 4,
        BlockParameter ''prefetch when y'' 5, BlockParameter ''prefetch on hover'' 6,
        BlockParameter ''unknown foo'' 7],
      children = [0], sourceSpan = 0, startSourceSpan = 1, endSourceSpan = 2\<rparr>"

text \<open>
  A second sample, whose trigger parsers keep track of the keys as the trigger grammar
  does: a key that is already in the set it is given is not registered again but reported
  as a diagnostic.
\<close>

definition sampleTrackingImports :: "(unit, nat, nat, int, nat, unit, string) Imports" where
  "sampleTrackingImports =
     sampleImports
       \<lparr>parseWhenTrigger := (\<lambda>param bindingParser triggers errs.
          if triggers ''when'' \<noteq> None then
            Inr (triggers, errs @ [ParseError (paramSourceSpan param)
                   ''Duplicate \"when\" trigger is not allowed''])
          else
            Inr (triggers(''when'' \<mapsto>
                   slice (expression param) (sampleStart (expression param))), errs)),
        parseOnTrigger := (\<lambda>param triggers errs ph.
          if triggers (sampleKey (expression param)) \<noteq> None then
            Inr (triggers, errs @ [ParseError (paramSourceSpan param)
                   (''Duplicate \"'' @ sampleKey (expression param) @
                    ''\" trigger is not allowed'')])
          else
            Inr (triggers(sampleKey (expression param) \<mapsto> expression param), errs))\<rparr>"

section \<open>Properties\<close>

subsection \<open>The patterns\<close>

text \<open>
  What the two shapes of pattern match, said without the matcher: a keyword followed by a
  whitespace character, and \<open>prefetch\<close>, a non-empty run of whitespace, a keyword and a
  whitespace character. No string matches two of the four trigger patterns, and none
  matches both parameter patterns.
\<close>

lemma stripPrefix_iff: "stripPrefix k s = Some r \<longleftrightarrow> s = k @ r"
  by (induction k s rule: stripPrefix.induct) auto

lemma stripPrefix_append: "stripPrefix k (k @ r) = Some r"
  by (simp add: stripPrefix_iff)

lemma startsWithWhitespace_iff:
  "startsWithWhitespace s \<longleftrightarrow> (\<exists>c r. isWhitespace c \<and> s = c # r)"
  by (cases s) auto

lemma keywordPattern_iff:
  "keywordPattern kw s \<longleftrightarrow> (\<exists>c r. isWhitespace c \<and> s = kw @ c # r)"
proof
  assume "keywordPattern kw s"
  then obtain t where "stripPrefix kw s = Some t" and "startsWithWhitespace t"
    by (auto simp: keywordPattern_def split: option.splits)
  then show "\<exists>c r. isWhitespace c \<and> s = kw @ c # r"
    by (auto simp: stripPrefix_iff startsWithWhitespace_iff)
next
  assume "\<exists>c r. isWhitespace c \<and> s = kw @ c # r"
  then show "keywordPattern kw s"
    by (auto simp: keywordPattern_def stripPrefix_append)
qed

lemma dropWhile_run:
  "list_all P ws \<Longrightarrow> \<not> P x \<Longrightarrow> dropWhile P (ws @ x # r) = x # r"
  by (induction ws) auto

lemma prefetchPattern_iff:
  assumes "\<not> isWhitespace k"
  shows "prefetchPattern (k # kw) s \<longleftrightarrow>
    (\<exists>ws c r. ws \<noteq> [] \<and> list_all isWhitespace ws \<and> isWhitespace c \<and>
       s = ''prefetch'' @ ws @ (k # kw) @ c # r)"
proof
  assume "prefetchPattern (k # kw) s"
  then obtain t where s: "s = ''prefetch'' @ t" and t: "startsWithWhitespace t"
    and kp: "keywordPattern (k # kw) (dropWhile isWhitespace t)"
    by (auto simp: prefetchPattern_def stripPrefix_iff split: option.splits)
  from kp obtain c r where c: "isWhitespace c"
    and d: "dropWhile isWhitespace t = (k # kw) @ c # r"
    by (auto simp: keywordPattern_iff)
  have tw: "t = takeWhile isWhitespace t @ (k # kw) @ c # r"
    using d takeWhile_dropWhile_id [of isWhitespace t] by simp
  have ne: "takeWhile isWhitespace t \<noteq> []"
    using t by (cases t) auto
  have "list_all isWhitespace (takeWhile isWhitespace t)"
    by (simp add: list_all_iff) (metis set_takeWhileD)
  with s tw ne c show "\<exists>ws c r. ws \<noteq> [] \<and> list_all isWhitespace ws \<and> isWhitespace c \<and>
       s = ''prefetch'' @ ws @ (k # kw) @ c # r"
    by metis
next
  assume "\<exists>ws c r. ws \<noteq> [] \<and> list_all isWhitespace ws \<and> isWhitespace c \<and>
       s = ''prefetch'' @ ws @ (k # kw) @ c # r"
  then obtain ws c r where ws: "ws \<noteq> []" "list_all isWhitespace ws" and c: "isWhitespace c"
    and s: "s = ''prefetch'' @ ws @ (k # kw) @ c # r" by blast
  have sp: "stripPrefix ''prefetch'' s = Some (ws @ (k # kw) @ c # r)"
    using s by (simp only: stripPrefix_iff)
  have sw: "startsWithWhitespace (ws @ (k # kw) @ c # r)"
    using ws by (cases ws) auto
  have "dropWhile isWhitespace (ws @ (k # kw) @ c # r) = (k # kw) @ c # r"
    using dropWhile_run [OF ws(2) assms] by simp
  then have "keywordPattern (k # kw) (dropWhile isWhitespace (ws @ (k # kw) @ c # r))"
    using c by (auto simp: keywordPattern_iff)
  with sp sw show "prefetchPattern (k # kw) s"
    by (simp add: prefetchPattern_def)
qed

lemma not_whitespace_w: "\<not> isWhitespace CHR ''w''"
  by (simp add: isWhitespace_def)

lemma not_whitespace_o: "\<not> isWhitespace CHR ''o''"
  by (simp add: isWhitespace_def)

lemma keywordPattern_when_not_on:
  "keywordPattern ''when'' s \<Longrightarrow> \<not> keywordPattern ''on'' s"
  by (auto simp: keywordPattern_iff)

lemma keywordPattern_not_prefetch:
  "keywordPattern ''when'' s \<or> keywordPattern ''on'' s \<Longrightarrow>
   stripPrefix ''prefetch'' s = None"
  by (cases "stripPrefix ''prefetch'' s") (auto simp: keywordPattern_iff stripPrefix_iff)

lemma trigger_patterns_exclusive:
  "length (filter id [WHEN_PARAMETER_PATTERN s, ON_PARAMETER_PATTERN s,
     PREFETCH_WHEN_PATTERN s, PREFETCH_ON_PATTERN s]) \<le> 1"
proof -
  have a: "\<not> (WHEN_PARAMETER_PATTERN s \<and> ON_PARAMETER_PATTERN s)"
    using keywordPattern_when_not_on
    by (auto simp: WHEN_PARAMETER_PATTERN_def ON_PARAMETER_PATTERN_def)
  have b: "\<not> (PREFETCH_WHEN_PATTERN s \<and> PREFETCH_ON_PATTERN s)"
    using keywordPattern_when_not_on
    by (auto simp: PREFETCH_WHEN_PATTERN_def PREFETCH_ON_PATTERN_def prefetchPattern_def
        split: option.splits)
  have c: "WHEN_PARAMETER_PATTERN s \<or> ON_PARAMETER_PATTERN s \<Longrightarrow>
      \<not> PREFETCH_WHEN_PATTERN s \<and> \<not> PREFETCH_ON_PATTERN s"
    using keywordPattern_not_prefetch [of s]
    by (auto simp: WHEN_PARAMETER_PATTERN_def ON_PARAMETER_PATTERN_def
        PREFETCH_WHEN_PATTERN_def PREFETCH_ON_PATTERN_def prefetchPattern_def)
  from a b c show ?thesis by auto
qed

lemma after_not_minimum:
  "AFTER_PARAMETER_PATTERN s \<Longrightarrow> \<not> MINIMUM_PARAMETER_PATTERN s"
  by (auto simp: AFTER_PARAMETER_PATTERN_def MINIMUM_PARAMETER_PATTERN_def keywordPattern_iff)

subsection \<open>The sub-parsers\<close>

text \<open>
  Each sub-parser returns exactly on the valid parameter lists, provided the visitor
  returns on the children of the block.
\<close>

lemma returns_simps [simp]: "returns (Inr x)" "\<not> returns (Inl e)"
  by (simp_all add: returns_def)

lemma parsePlaceholderParameters_returns:
  "returns (parsePlaceholderParameters I params minimumTime) \<longleftrightarrow>
     list_all (\<lambda>p. MINIMUM_PARAMETER_PATTERN (expression p) \<and> validTimeParameter I p) params \<and>
     length params + (if minimumTime = None then 0 else 1) \<le> 1"
proof (induction params arbitrary: minimumTime)
  case Nil
  show ?case by simp
next
  case (Cons p ps)
  show ?case
  proof (cases "MINIMUM_PARAMETER_PATTERN (expression p) \<and> minimumTime = None")
    case True
    then show ?thesis
      using Cons.IH
      by (cases "parsedTimeOf I p") (auto simp: validTimeParameter_def split: option.splits)
  next
    case False
    then show ?thesis by auto
  qed
qed

lemma parsePlaceholderBlock_returns:
  "returns (parsePlaceholderBlock I ast visitor) \<longleftrightarrow>
     validPlaceholderParameters I (parameters ast) \<and>
     returns (visitAll I visitor (children ast) (children ast))"
  using parsePlaceholderParameters_returns [of I "parameters ast" None]
  by (auto simp: parsePlaceholderBlock_def validPlaceholderParameters_def split: sum.splits)

lemma parseLoadingParameters_returns:
  "returns (parseLoadingParameters I params (afterTime, minimumTime)) \<longleftrightarrow>
     list_all (\<lambda>p. (AFTER_PARAMETER_PATTERN (expression p) \<or>
                    MINIMUM_PARAMETER_PATTERN (expression p)) \<and> validTimeParameter I p) params \<and>
     length (filter (\<lambda>p. AFTER_PARAMETER_PATTERN (expression p)) params) +
       (if afterTime = None then 0 else 1) \<le> 1 \<and>
     length (filter (\<lambda>p. MINIMUM_PARAMETER_PATTERN (expression p)) params) +
       (if minimumTime = None then 0 else 1) \<le> 1"
proof (induction params arbitrary: afterTime minimumTime)
  case Nil
  show ?case by simp
next
  case (Cons p ps)
  consider (a) "AFTER_PARAMETER_PATTERN (expression p)"
    | (m) "\<not> AFTER_PARAMETER_PATTERN (expression p)" "MINIMUM_PARAMETER_PATTERN (expression p)"
    | (n) "\<not> AFTER_PARAMETER_PATTERN (expression p)"
        "\<not> MINIMUM_PARAMETER_PATTERN (expression p)"
    by blast
  then show ?case
  proof cases
    case a
    then have nm: "\<not> MINIMUM_PARAMETER_PATTERN (expression p)"
      by (rule after_not_minimum)
    show ?thesis
    proof (cases afterTime)
      case None
      then show ?thesis
        using a nm Cons.IH
        by (cases "parsedTimeOf I p") (auto simp: validTimeParameter_def split: option.splits)
    next
      case (Some t)
      then show ?thesis using a by simp
    qed
  next
    case m
    show ?thesis
    proof (cases minimumTime)
      case None
      then show ?thesis
        using m Cons.IH
        by (cases "parsedTimeOf I p") (auto simp: validTimeParameter_def split: option.splits)
    next
      case (Some t)
      then show ?thesis using m by simp
    qed
  next
    case n
    then show ?thesis by simp
  qed
qed

lemma parseLoadingBlock_returns:
  "returns (parseLoadingBlock I ast visitor) \<longleftrightarrow>
     validLoadingParameters I (parameters ast) \<and>
     returns (visitAll I visitor (children ast) (children ast))"
  using parseLoadingParameters_returns [of I "parameters ast" None None]
  by (auto simp: parseLoadingBlock_def validLoadingParameters_def split: sum.splits)

lemma parseErrorBlock_returns:
  "returns (parseErrorBlock I ast visitor) \<longleftrightarrow>
     parameters ast = [] \<and> returns (visitAll I visitor (children ast) (children ast))"
  by (auto simp: parseErrorBlock_def split: sum.splits)

subsection \<open>The classifier, step by step\<close>

text \<open>
  One turn of the loop of \<open>parseConnectedBlocks\<close>: it leaves the loop on an
  unrecognized name, turns an exception into a diagnostic, reports a block whose slot is
  filled, and fills an empty slot when the sub-parser returns. A filled slot is never
  changed, and a list of valid blocks of distinct kinds fills its slots without a
  diagnostic.
\<close>

lemma slot_pushError [simp]: "slot k (pushError span msg st) = slot k st"
  by (simp add: slot_def pushError_def)

lemma errors_pushError [simp]:
  "errors (pushError span msg st) = errors st @ [ParseError span msg]"
  by (simp add: pushError_def)

lemma loop_unrecognized:
  "\<not> isConnectedDeferLoopBlock (name block) \<Longrightarrow>
   parseConnectedBlocksLoop I visitor (block # blocks) st =
     pushError (startSourceSpan block) (''Unrecognized block \"@'' @ name block @ ''\"'') st"
  by simp

lemma loop_caught:
  "isConnectedDeferLoopBlock (name block) \<Longrightarrow>
   switchConnectedBlock I visitor block st = Inl (Error msg) \<Longrightarrow>
   parseConnectedBlocksLoop I visitor (block # blocks) st =
     parseConnectedBlocksLoop I visitor blocks (pushError (startSourceSpan block) msg st)"
  by simp

lemma loop_returned:
  "isConnectedDeferLoopBlock (name block) \<Longrightarrow>
   switchConnectedBlock I visitor block st = Inr st' \<Longrightarrow>
   parseConnectedBlocksLoop I visitor (block # blocks) st =
     parseConnectedBlocksLoop I visitor blocks st'"
  by simp

lemma switch_duplicate:
  assumes "isConnectedDeferLoopBlock (name block)" and "slot (name block) st \<noteq> None"
  shows "switchConnectedBlock I visitor block st =
     Inr (pushError (startSourceSpan block)
            (''@defer block can only have one @'' @ name block @ '' block'') st)"
  using assms
  by (auto simp: isConnectedDeferLoopBlock_def switchConnectedBlock_def slot_def)

lemma switch_parsed:
  assumes "isConnectedDeferLoopBlock (name block)" and "slot (name block) st = None"
    and "subParser I block visitor = Inr node"
  shows "\<exists>st'. switchConnectedBlock I visitor block st = Inr st' \<and>
     slot (name block) st' = Some node \<and> errors st' = errors st \<and>
     (\<forall>k. k \<noteq> name block \<longrightarrow> slot k st' = slot k st)"
  using assms
  by (auto simp: isConnectedDeferLoopBlock_def switchConnectedBlock_def slot_def subParser_def
      split: sum.splits)

lemma switch_raised:
  assumes "isConnectedDeferLoopBlock (name block)" and "slot (name block) st = None"
    and "subParser I block visitor = Inl e"
  shows "switchConnectedBlock I visitor block st = Inl e"
  using assms
  by (auto simp: isConnectedDeferLoopBlock_def switchConnectedBlock_def slot_def subParser_def
      split: sum.splits)

lemma switch_keeps_slot:
  assumes "slot k st = Some node"
  shows "slot k (case switchConnectedBlock I visitor block st of
                   Inl e \<Rightarrow> pushError span (message e) st | Inr st' \<Rightarrow> st') = Some node"
  using assms
  by (auto simp: switchConnectedBlock_def slot_def pushError_def split: sum.splits if_splits)

lemma loop_keeps_slot:
  "slot k st = Some node \<Longrightarrow> slot k (parseConnectedBlocksLoop I visitor blocks st) = Some node"
proof (induction blocks arbitrary: st)
  case Nil
  then show ?case by simp
next
  case (Cons block blocks)
  show ?case
  proof (cases "isConnectedDeferLoopBlock (name block)")
    case True
    then show ?thesis
      using Cons.IH [OF switch_keeps_slot [OF Cons.prems]] by simp
  next
    case False
    then show ?thesis using Cons.prems by simp
  qed
qed

lemma loop_append:
  "list_all (\<lambda>b. isConnectedDeferLoopBlock (name b)) blocks \<Longrightarrow>
   parseConnectedBlocksLoop I visitor (blocks @ rest) st =
     parseConnectedBlocksLoop I visitor rest (parseConnectedBlocksLoop I visitor blocks st)"
  by (induction blocks arbitrary: st) auto

lemma loop_all_parsed:
  assumes "list_all (\<lambda>b. isConnectedDeferLoopBlock (name b) \<and>
      returns (subParser I b visitor)) blocks"
    and "distinct (map name blocks)"
    and "list_all (\<lambda>b. slot (name b) st = None) blocks"
  shows "errors (parseConnectedBlocksLoop I visitor blocks st) = errors st \<and>
    list_all (\<lambda>b. map_sum id Some (subParser I b visitor) =
        Inr (slot (name b) (parseConnectedBlocksLoop I visitor blocks st))) blocks"
  using assms
proof (induction blocks arbitrary: st)
  case Nil
  then show ?case by simp
next
  case (Cons b bs)
  from Cons.prems(1) have rec: "isConnectedDeferLoopBlock (name b)"
    and ret: "returns (subParser I b visitor)" by simp_all
  from ret obtain node where node: "subParser I b visitor = Inr node"
    by (auto simp: returns_def split: sum.splits)
  from Cons.prems(3) have empty: "slot (name b) st = None" by simp
  obtain st1 where st1: "switchConnectedBlock I visitor b st = Inr st1"
    and filled: "slot (name b) st1 = Some node" and same: "errors st1 = errors st"
    and others: "\<forall>k. k \<noteq> name b \<longrightarrow> slot k st1 = slot k st"
    using switch_parsed [OF rec empty node] by blast
  have step: "parseConnectedBlocksLoop I visitor (b # bs) st =
      parseConnectedBlocksLoop I visitor bs st1"
    using loop_returned [OF rec st1] .
  have p1: "list_all (\<lambda>b. isConnectedDeferLoopBlock (name b) \<and>
      returns (subParser I b visitor)) bs"
    using Cons.prems(1) by simp
  have p2: "distinct (map name bs)"
    using Cons.prems(2) by simp
  have p3: "list_all (\<lambda>b. slot (name b) st1 = None) bs"
    unfolding list_all_iff
  proof
    fix b'
    assume b': "b' \<in> set bs"
    have "name b' \<noteq> name b"
    proof
      assume "name b' = name b"
      then have "name b \<in> set (map name bs)"
        using b' by (metis imageI set_map)
      with Cons.prems(2) show False by simp
    qed
    then have "slot (name b') st1 = slot (name b') st"
      using others by simp
    then show "slot (name b') st1 = None"
      using Cons.prems(3) b' by (simp add: list_all_iff)
  qed
  note IH = Cons.IH [OF p1 p2 p3]
  have "slot (name b) (parseConnectedBlocksLoop I visitor bs st1) = Some node"
    using loop_keeps_slot [OF filled] .
  with IH step same node show ?case by simp
qed

lemma classify_permutation:
  assumes "name p = ''placeholder''" and "parsePlaceholderBlock I p visitor = Inr pnode"
    and "name l = ''loading''" and "parseLoadingBlock I l visitor = Inr lnode"
    and "name e = ''error''" and "parseErrorBlock I e visitor = Inr enode"
    and "mset blocks = mset [p, l, e]"
  shows "parseConnectedBlocks I blocks [] visitor =
           \<lparr>placeholder = Some pnode, loading = Some lnode, error = Some enode, errors = []\<rparr>"
proof -
  let ?st = "\<lparr>placeholder = None, loading = None, error = None,
    errors = [] :: 's ParseError list\<rparr>"
  let ?r = "parseConnectedBlocksLoop I visitor blocks ?st"
  have sp: "subParser I p visitor = Inr (PlaceholderNode pnode)"
    "subParser I l visitor = Inr (LoadingNode lnode)"
    "subParser I e visitor = Inr (ErrorNode enode)"
    using assms(1-6) by (simp_all add: subParser_def)
  have set: "set blocks = {p, l, e}"
    using mset_eq_setD [OF assms(7)] by auto
  have "mset (map name blocks) = mset (map name [p, l, e])"
    using assms(7) by (metis mset_map)
  then have "distinct (map name blocks) \<longleftrightarrow> distinct (map name [p, l, e])"
    by (rule mset_eq_imp_distinct_iff)
  then have dist: "distinct (map name blocks)"
    using assms(1,3,5) by simp
  have h1: "list_all (\<lambda>b. isConnectedDeferLoopBlock (name b) \<and>
      returns (subParser I b visitor)) blocks"
    using set sp assms(1,3,5)
    by (auto simp: list_all_iff isConnectedDeferLoopBlock_def returns_def)
  have h3: "list_all (\<lambda>b. slot (name b) ?st = None) blocks"
    by (simp add: list_all_iff slot_def)
  from loop_all_parsed [OF h1 dist h3]
  have errs: "errors ?r = []"
    and all: "list_all (\<lambda>b. map_sum id Some (subParser I b visitor) =
        Inr (slot (name b) ?r)) blocks"
    by simp_all
  from all set have "map_sum id Some (subParser I p visitor) = Inr (slot (name p) ?r)"
    "map_sum id Some (subParser I l visitor) = Inr (slot (name l) ?r)"
    "map_sum id Some (subParser I e visitor) = Inr (slot (name e) ?r)"
    by (simp_all add: list_all_iff)
  then have "slot ''placeholder'' ?r = Some (PlaceholderNode pnode)"
    "slot ''loading'' ?r = Some (LoadingNode lnode)"
    "slot ''error'' ?r = Some (ErrorNode enode)"
    using sp assms(1,3,5) by simp_all
  then have "placeholder ?r = Some pnode" "loading ?r = Some lnode" "error ?r = Some enode"
    by (auto simp: slot_def)
  with errs show ?thesis
    by (simp add: parseConnectedBlocks_def ConnectedBlocks.equality)
qed

subsection \<open>The connected blocks\<close>

text \<open>
  Claim C1 says that a placeholder block with \<open>minimum 100ms\<close> twice gives one diagnostic
  and still a placeholder node with \<open>minimumTime = 100\<close>. With the sample collaborators,
  for which \<open>minimum 100ms\<close> parses to 100, the second parameter makes
  \<open>parsePlaceholderBlock\<close> throw, the classifier catches it, and the placeholder slot
  stays null: no placeholder node is produced.
\<close>

theorem repeated_minimum_counterexample:
  "parsedTimeOf sampleImports (BlockParameter ''minimum 100ms'' 13) = Inr (Some 100) \<and>
   parseConnectedBlocks sampleImports
     [samplePlaceholder\<lparr>parameters :=
        [BlockParameter ''minimum 100ms'' 13, BlockParameter ''minimum 100ms'' 14]\<rparr>] [] () =
     \<lparr>placeholder = None, loading = None, error = None,
      errors = [ParseError 11 ''@placeholder block can only have one \"minimum\" parameter'']\<rparr>"
  by code_simp

text \<open>
  Claim C1, amended. For a placeholder block with two parameters that both match the
  \<open>minimum\<close> pattern, the first with a duration that parses (to 100 or to any other
  number), \<open>parsePlaceholderBlock\<close> throws
  \<open>@placeholder block can only have one "minimum" parameter\<close>; classification of the
  block alone gives exactly this one diagnostic at the start span of the block, and the
  placeholder slot is null.
\<close>

theorem repeated_minimum_drops_placeholder:
  assumes "name block = ''placeholder''"
    and "parameters block = [p1, p2]"
    and "MINIMUM_PARAMETER_PATTERN (expression p1)"
    and "MINIMUM_PARAMETER_PATTERN (expression p2)"
    and "parsedTimeOf I p1 = Inr (Some t)"
  shows "parsePlaceholderBlock I block visitor =
           Inl (Error ''@placeholder block can only have one \"minimum\" parameter'') \<and>
         parseConnectedBlocks I [block] [] visitor =
           \<lparr>placeholder = None, loading = None, error = None,
            errors = [ParseError (startSourceSpan block)
              ''@placeholder block can only have one \"minimum\" parameter'']\<rparr>"
proof -
  have raised: "parsePlaceholderBlock I block visitor =
      Inl (Error ''@placeholder block can only have one \"minimum\" parameter'')"
    using assms by (simp add: parsePlaceholderBlock_def)
  then have "switchConnectedBlock I visitor block
      \<lparr>placeholder = None, loading = None, error = None, errors = []\<rparr> =
      Inl (Error ''@placeholder block can only have one \"minimum\" parameter'')"
    using assms(1) by (simp add: switchConnectedBlock_def)
  then have "parseConnectedBlocks I [block] [] visitor =
      \<lparr>placeholder = None, loading = None, error = None,
       errors = [ParseError (startSourceSpan block)
         ''@placeholder block can only have one \"minimum\" parameter'']\<rparr>"
    using assms(1)
    by (simp add: parseConnectedBlocks_def isConnectedDeferLoopBlock_def pushError_def)
  with raised show ?thesis by simp
qed

text \<open>
  The amended claim C1 at the sample block with \<open>minimum 100ms\<close> twice.
\<close>

theorem repeated_minimum_drops_placeholder_witness:
  "parsePlaceholderBlock sampleImports
     (samplePlaceholder\<lparr>parameters :=
        [BlockParameter ''minimum 100ms'' 13, BlockParameter ''minimum 100ms'' 14]\<rparr>) () =
     Inl (Error ''@placeholder block can only have one \"minimum\" parameter'') \<and>
   parseConnectedBlocks sampleImports
     [samplePlaceholder\<lparr>parameters :=
        [BlockParameter ''minimum 100ms'' 13, BlockParameter ''minimum 100ms'' 14]\<rparr>] [] () =
     \<lparr>placeholder = None, loading = None, error = None,
      errors = [ParseError (startSourceSpan (samplePlaceholder\<lparr>parameters :=
        [BlockParameter ''minimum 100ms'' 13, BlockParameter ''minimum 100ms'' 14]\<rparr>))
         ''@placeholder block can only have one \"minimum\" parameter'']\<rparr>"
proof (rule repeated_minimum_drops_placeholder)
  show "name (samplePlaceholder\<lparr>parameters :=
        [BlockParameter ''minimum 100ms'' 13, BlockParameter ''minimum 100ms'' 14]\<rparr>) =
      ''placeholder''"
    by (simp add: samplePlaceholder_def)
  show "parameters (samplePlaceholder\<lparr>parameters :=
        [BlockParameter ''minimum 100ms'' 13, BlockParameter ''minimum 100ms'' 14]\<rparr>) =
      [BlockParameter ''minimum 100ms'' 13, BlockParameter ''minimum 100ms'' 14]"
    by simp
  show "MINIMUM_PARAMETER_PATTERN (expression (BlockParameter ''minimum 100ms'' (13::nat)))"
    by code_simp
  show "MINIMUM_PARAMETER_PATTERN (expression (BlockParameter ''minimum 100ms'' (14::nat)))"
    by code_simp
  show "parsedTimeOf sampleImports (BlockParameter ''minimum 100ms'' 13) = Inr (Some 100)"
    by code_simp
qed

text \<open>
  Claim C2. For the list of a valid placeholder, a block with an unrecognized name and a
  valid loading block, the result holds the placeholder, the loading slot is null, and
  the only diagnostic is \<open>Unrecognized block "@<name>"\<close> at the start span of the
  unrecognized block.
\<close>

theorem unrecognized_block_stops_classification:
  assumes "name p = ''placeholder''"
    and "parsePlaceholderBlock I p visitor = Inr node"
    and "\<not> isConnectedDeferLoopBlock (name u)"
    and "name l = ''loading''"
    and "parseLoadingBlock I l visitor = Inr lnode"
  shows "parseConnectedBlocks I [p, u, l] [] visitor =
           \<lparr>placeholder = Some node, loading = None, error = None,
            errors = [ParseError (startSourceSpan u)
              (''Unrecognized block \"@'' @ name u @ ''\"'')]\<rparr>"
proof -
  have "switchConnectedBlock I visitor p
      \<lparr>placeholder = None, loading = None, error = None, errors = []\<rparr> =
      Inr \<lparr>placeholder = Some node, loading = None, error = None, errors = []\<rparr>"
    using assms(1,2) by (simp add: switchConnectedBlock_def)
  then show ?thesis
    using assms(1,3)
    by (simp add: parseConnectedBlocks_def isConnectedDeferLoopBlock_def pushError_def)
qed

text \<open>
  Claim C2 at the sample blocks.
\<close>

theorem unrecognized_block_stops_classification_witness:
  "parseConnectedBlocks sampleImports [samplePlaceholder, sampleUnknown, sampleLoading] [] () =
     \<lparr>placeholder = Some (DeferredBlockPlaceholder [1] (Some 100) 10 11 12),
      loading = None, error = None,
      errors = [ParseError (startSourceSpan sampleUnknown)
        (''Unrecognized block \"@'' @ name sampleUnknown @ ''\"'')]\<rparr>"
proof (rule unrecognized_block_stops_classification)
  show "name samplePlaceholder = ''placeholder''"
    by (simp add: samplePlaceholder_def)
  show "parsePlaceholderBlock sampleImports samplePlaceholder () =
      Inr (DeferredBlockPlaceholder [1] (Some 100) 10 11 12)"
    by code_simp
  show "\<not> isConnectedDeferLoopBlock (name sampleUnknown)"
    by code_simp
  show "name sampleLoading = ''loading''"
    by (simp add: sampleLoading_def)
  show "parseLoadingBlock sampleImports sampleLoading () =
      Inr (DeferredBlockLoading [2] (Some 1000) (Some 500) 20 21 22)"
    by code_simp
qed

text \<open>
  Claim C3 says that every list with two valid blocks of the same recognized kind gets
  exactly one diagnostic \<open>@defer block can only have one @<kind> block\<close> at the start
  span of the second, and keeps the node of the first. The sample placeholder and its
  copy with start span 51 are both valid. After a block with an unrecognized name the
  loop has ended: neither is parsed, the placeholder slot is null and the only diagnostic
  is the one of the unrecognized block. With the unrecognized block between the two, the
  first is kept but the second is never reached, and again there is no diagnostic for the
  duplicate.
\<close>

theorem duplicate_after_unrecognized_counterexample:
  "parsePlaceholderBlock sampleImports samplePlaceholder () =
     Inr (DeferredBlockPlaceholder [1] (Some 100) 10 11 12) \<and>
   parsePlaceholderBlock sampleImports (samplePlaceholder\<lparr>startSourceSpan := 51\<rparr>) () =
     Inr (DeferredBlockPlaceholder [1] (Some 100) 10 51 12) \<and>
   parseConnectedBlocks sampleImports
     [sampleUnknown, samplePlaceholder, samplePlaceholder\<lparr>startSourceSpan := 51\<rparr>] [] () =
     \<lparr>placeholder = None, loading = None, error = None,
      errors = [ParseError 41 ''Unrecognized block \"@unknown-block\"'']\<rparr> \<and>
   parseConnectedBlocks sampleImports
     [samplePlaceholder, sampleUnknown, samplePlaceholder\<lparr>startSourceSpan := 51\<rparr>] [] () =
     \<lparr>placeholder = Some (DeferredBlockPlaceholder [1] (Some 100) 10 11 12),
      loading = None, error = None,
      errors = [ParseError 41 ''Unrecognized block \"@unknown-block\"'']\<rparr>"
  by code_simp

text \<open>
  Claim C3, amended. Let \<open>b1\<close> and \<open>b2\<close> be two blocks of the same recognized kind,
  \<open>b1\<close> valid (its sub-parser returns \<open>node\<close>) and met while the slot of the kind is
  empty, and let the loop reach \<open>b2\<close>: the blocks between them have recognized names, of
  the other kinds. Then \<open>b2\<close> adds exactly one diagnostic
  \<open>@defer block can only have one @<kind> block\<close> at its start span and the loop goes on
  with the blocks after \<open>b2\<close>; the slot of the kind holds \<open>node\<close> at the end, whatever
  follows; and for the two blocks alone the diagnostic is the only one added.
\<close>

theorem duplicate_kind_first_wins:
  assumes "isConnectedDeferLoopBlock (name b1)"
    and "name b2 = name b1"
    and "slot (name b1) st = None"
    and "subParser I b1 visitor = Inr node"
    and "list_all (\<lambda>b. isConnectedDeferLoopBlock (name b) \<and> name b \<noteq> name b1) between"
  shows "parseConnectedBlocksLoop I visitor (b1 # between @ b2 # rest) st =
           parseConnectedBlocksLoop I visitor rest
             (pushError (startSourceSpan b2)
                (''@defer block can only have one @'' @ name b1 @ '' block'')
                (parseConnectedBlocksLoop I visitor (b1 # between) st)) \<and>
         slot (name b1) (parseConnectedBlocksLoop I visitor (b1 # between @ b2 # rest) st) =
           Some node \<and>
         errors (parseConnectedBlocksLoop I visitor [b1, b2] st) =
           errors st @ [ParseError (startSourceSpan b2)
             (''@defer block can only have one @'' @ name b1 @ '' block'')]"
proof -
  let ?dup = "''@defer block can only have one @'' @ name b1 @ '' block''"
  obtain st1 where st1: "switchConnectedBlock I visitor b1 st = Inr st1"
    and filled: "slot (name b1) st1 = Some node" and same: "errors st1 = errors st"
    using switch_parsed [OF assms(1,3,4)] by blast
  have first: "\<And>bs. parseConnectedBlocksLoop I visitor (b1 # bs) st =
      parseConnectedBlocksLoop I visitor bs st1"
    using loop_returned [OF assms(1) st1] .
  have rec: "list_all (\<lambda>b. isConnectedDeferLoopBlock (name b)) (b1 # between)"
    using assms(1,5) by (simp add: list_all_iff)
  let ?mid = "parseConnectedBlocksLoop I visitor (b1 # between) st"
  have mid: "slot (name b2) ?mid = Some node"
    using loop_keeps_slot [OF filled] first assms(2) by simp
  have b2: "isConnectedDeferLoopBlock (name b2)"
    using assms(1,2) by simp
  have dup: "parseConnectedBlocksLoop I visitor (b2 # bs) s =
      parseConnectedBlocksLoop I visitor bs (pushError (startSourceSpan b2) ?dup s)"
    if "slot (name b2) s \<noteq> None" for s bs
  proof -
    have "switchConnectedBlock I visitor b2 s = Inr (pushError (startSourceSpan b2) ?dup s)"
      using switch_duplicate [OF b2 that] assms(2) by simp
    then show ?thesis by (rule loop_returned [OF b2])
  qed
  have whole: "parseConnectedBlocksLoop I visitor (b1 # between @ b2 # rest) st =
      parseConnectedBlocksLoop I visitor rest (pushError (startSourceSpan b2) ?dup ?mid)"
    using loop_append [OF rec, of I visitor "b2 # rest" st] dup [of ?mid rest] mid by simp
  have kept: "slot (name b1) (parseConnectedBlocksLoop I visitor (b1 # between @ b2 # rest) st) =
      Some node"
    using loop_keeps_slot [OF filled] first by simp
  have "parseConnectedBlocksLoop I visitor [b1, b2] st =
      pushError (startSourceSpan b2) ?dup st1"
    using first [of "[b2]"] dup [of st1 "[]"] filled assms(2) by simp
  then have two: "errors (parseConnectedBlocksLoop I visitor [b1, b2] st) =
      errors st @ [ParseError (startSourceSpan b2) ?dup]"
    using same by simp
  from whole kept two show ?thesis by blast
qed

text \<open>
  The amended claim C3 at the sample blocks: a placeholder, a loading block, a second
  placeholder and an error block.
\<close>

theorem duplicate_kind_first_wins_witness:
  "parseConnectedBlocks sampleImports
     [samplePlaceholder, sampleLoading, samplePlaceholder\<lparr>startSourceSpan := 51\<rparr>,
      sampleError] [] () =
     \<lparr>placeholder = Some (DeferredBlockPlaceholder [1] (Some 100) 10 11 12),
      loading = Some (DeferredBlockLoading [2] (Some 1000) (Some 500) 20 21 22),
      error = Some (DeferredBlockError [3] 30 31 32),
      errors = [ParseError 51 ''@defer block can only have one @placeholder block'']\<rparr>"
proof -
  let ?st = "\<lparr>placeholder = None, loading = None, error = None, errors = []\<rparr>
    :: (nat, int, nat) ConnectedBlocks"
  have h1: "isConnectedDeferLoopBlock (name samplePlaceholder)"
    by code_simp
  have h2: "name (samplePlaceholder\<lparr>startSourceSpan := 51\<rparr>) = name samplePlaceholder"
    by simp
  have h3: "slot (name samplePlaceholder) ?st = None"
    by code_simp
  have h4: "subParser sampleImports samplePlaceholder () =
      Inr (PlaceholderNode (DeferredBlockPlaceholder [1] (Some 100) 10 11 12))"
    by code_simp
  have h5: "list_all (\<lambda>b. isConnectedDeferLoopBlock (name b) \<and> name b \<noteq> name samplePlaceholder)
      [sampleLoading]"
    by code_simp
  have after: "parseConnectedBlocksLoop sampleImports () [sampleError]
      (pushError (startSourceSpan (samplePlaceholder\<lparr>startSourceSpan := 51\<rparr>))
         (''@defer block can only have one @'' @ name samplePlaceholder @ '' block'')
         (parseConnectedBlocksLoop sampleImports () (samplePlaceholder # [sampleLoading]) ?st)) =
      \<lparr>placeholder = Some (DeferredBlockPlaceholder [1] (Some 100) 10 11 12),
       loading = Some (DeferredBlockLoading [2] (Some 1000) (Some 500) 20 21 22),
       error = Some (DeferredBlockError [3] 30 31 32),
       errors = [ParseError 51 ''@defer block can only have one @placeholder block'']\<rparr>"
    by code_simp
  from duplicate_kind_first_wins [OF h1 h2 h3 h4 h5, of "[sampleError]"]
  have "parseConnectedBlocksLoop sampleImports ()
      (samplePlaceholder # [sampleLoading] @ samplePlaceholder\<lparr>startSourceSpan := 51\<rparr> #
         [sampleError]) ?st =
      parseConnectedBlocksLoop sampleImports () [sampleError]
        (pushError (startSourceSpan (samplePlaceholder\<lparr>startSourceSpan := 51\<rparr>))
           (''@defer block can only have one @'' @ name samplePlaceholder @ '' block'')
           (parseConnectedBlocksLoop sampleImports () (samplePlaceholder # [sampleLoading]) ?st))"
    by (rule conjunct1)
  with after show ?thesis
    by (simp only: parseConnectedBlocks_def append.simps)
qed

text \<open>
  Claim C4. Let the list be a permutation of a placeholder, a loading and an error block,
  each with a valid parameter list: at most one \<open>minimum\<close> parameter for the placeholder,
  at most one \<open>after\<close> and at most one \<open>minimum\<close> parameter for the loading block, each
  with a duration that parses, and no parameter for the error block; and let the visitor
  return on the children of the three blocks. Then the three sub-parsers return nodes,
  classification fills the three slots with them, and there is no diagnostic.
\<close>

theorem one_of_each_kind_in_any_order:
  assumes "name p = ''placeholder''" and "validPlaceholderParameters I (parameters p)"
    and "name l = ''loading''" and "validLoadingParameters I (parameters l)"
    and "name e = ''error''" and "parameters e = []"
    and "list_all (\<lambda>b. returns (visitAll I visitor (children b) (children b))) [p, l, e]"
    and "mset blocks = mset [p, l, e]"
  shows "\<exists>pnode lnode enode.
           parsePlaceholderBlock I p visitor = Inr pnode \<and>
           parseLoadingBlock I l visitor = Inr lnode \<and>
           parseErrorBlock I e visitor = Inr enode \<and>
           parseConnectedBlocks I blocks [] visitor =
             \<lparr>placeholder = Some pnode, loading = Some lnode, error = Some enode,
              errors = []\<rparr>"
proof -
  have "returns (parsePlaceholderBlock I p visitor)"
    using assms(2,7) by (simp add: parsePlaceholderBlock_returns)
  then obtain pnode where pn: "parsePlaceholderBlock I p visitor = Inr pnode"
    by (cases "parsePlaceholderBlock I p visitor") simp_all
  have "returns (parseLoadingBlock I l visitor)"
    using assms(4,7) by (simp add: parseLoadingBlock_returns)
  then obtain lnode where ln: "parseLoadingBlock I l visitor = Inr lnode"
    by (cases "parseLoadingBlock I l visitor") simp_all
  have "returns (parseErrorBlock I e visitor)"
    using assms(6,7) by (simp add: parseErrorBlock_returns)
  then obtain enode where en: "parseErrorBlock I e visitor = Inr enode"
    by (cases "parseErrorBlock I e visitor") simp_all
  from classify_permutation [OF assms(1) pn assms(3) ln assms(5) en assms(8)] pn ln en
  show ?thesis by blast
qed

text \<open>Claim C4 at the sample blocks, in the order error, placeholder, loading.\<close>

theorem one_of_each_kind_in_any_order_witness:
  "parseConnectedBlocks sampleImports [sampleError, samplePlaceholder, sampleLoading] [] () =
     \<lparr>placeholder = Some (DeferredBlockPlaceholder [1] (Some 100) 10 11 12),
      loading = Some (DeferredBlockLoading [2] (Some 1000) (Some 500) 20 21 22),
      error = Some (DeferredBlockError [3] 30 31 32), errors = []\<rparr>"
proof -
  have h1: "name samplePlaceholder = ''placeholder''"
    by (simp add: samplePlaceholder_def)
  have h2: "validPlaceholderParameters sampleImports (parameters samplePlaceholder)"
    by code_simp
  have h3: "name sampleLoading = ''loading''"
    by (simp add: sampleLoading_def)
  have h4: "validLoadingParameters sampleImports (parameters sampleLoading)"
    by code_simp
  have h5: "name sampleError = ''error''"
    by (simp add: sampleError_def)
  have h6: "parameters sampleError = []"
    by (simp add: sampleError_def)
  have h7: "list_all (\<lambda>b. returns (visitAll sampleImports () (children b) (children b)))
      [samplePlaceholder, sampleLoading, sampleError]"
    by code_simp
  have h8: "mset [sampleError, samplePlaceholder, sampleLoading] =
      mset [samplePlaceholder, sampleLoading, sampleError]"
    by simp
  have nodes: "parsePlaceholderBlock sampleImports samplePlaceholder () =
      Inr (DeferredBlockPlaceholder [1] (Some 100) 10 11 12)"
    "parseLoadingBlock sampleImports sampleLoading () =
      Inr (DeferredBlockLoading [2] (Some 1000) (Some 500) 20 21 22)"
    "parseErrorBlock sampleImports sampleError () = Inr (DeferredBlockError [3] 30 31 32)"
    by code_simp+
  from one_of_each_kind_in_any_order [OF h1 h2 h3 h4 h5 h6 h7 h8] nodes
  show ?thesis by auto
qed

text \<open>
  Claim C5. An error block with a non-empty parameter list makes \<open>parseErrorBlock\<close>
  throw \<open>@error block cannot have parameters\<close> whatever the parameters are and whatever
  the imported functions do: the length is tested first, and neither a parameter nor a
  collaborator is looked at. When the classifier hands such a block to the sub-parser
  (the error slot is empty) it adds exactly this diagnostic at the start span of the block
  and goes on; for the block alone it is the only diagnostic, and the error slot stays
  null.
\<close>

theorem error_block_cannot_have_parameters:
  assumes "name block = ''error''" and "parameters block \<noteq> []"
  shows "parseErrorBlock I block visitor = Inl (Error ''@error block cannot have parameters'') \<and>
         (error st = None \<longrightarrow>
            parseConnectedBlocksLoop I visitor (block # blocks) st =
              parseConnectedBlocksLoop I visitor blocks
                (pushError (startSourceSpan block) ''@error block cannot have parameters'' st)) \<and>
         parseConnectedBlocks I [block] [] visitor =
           \<lparr>placeholder = None, loading = None, error = None,
            errors = [ParseError (startSourceSpan block)
              ''@error block cannot have parameters'']\<rparr>"
proof -
  have raised: "parseErrorBlock I block visitor =
      Inl (Error ''@error block cannot have parameters'')"
    using assms(2) by (simp add: parseErrorBlock_def)
  have rec: "isConnectedDeferLoopBlock (name block)"
    using assms(1) by (simp add: isConnectedDeferLoopBlock_def)
  have sw: "switchConnectedBlock I visitor block s =
      Inl (Error ''@error block cannot have parameters'')" if "error s = None" for s
    using that assms(1) raised by (simp add: switchConnectedBlock_def)
  have step: "parseConnectedBlocksLoop I visitor (block # bs) s =
      parseConnectedBlocksLoop I visitor bs
        (pushError (startSourceSpan block) ''@error block cannot have parameters'' s)"
    if "error s = None" for s bs
    using loop_caught [OF rec sw [OF that]] .
  have "parseConnectedBlocks I [block] [] visitor =
      \<lparr>placeholder = None, loading = None, error = None,
       errors = [ParseError (startSourceSpan block) ''@error block cannot have parameters'']\<rparr>"
    by (simp only: parseConnectedBlocks_def)
      (simp add: step [of _ "[]"] pushError_def del: parseConnectedBlocksLoop.simps(2))
  with raised step show ?thesis by blast
qed

text \<open>
  Claim C5 at the sample error block with the parameter \<open>minimum 10ms\<close>.
\<close>

theorem error_block_cannot_have_parameters_witness:
  "parseErrorBlock sampleImports
     (sampleError\<lparr>parameters := [BlockParameter ''minimum 10ms'' 33]\<rparr>) () =
     Inl (Error ''@error block cannot have parameters'') \<and>
   parseConnectedBlocks sampleImports
     [sampleError\<lparr>parameters := [BlockParameter ''minimum 10ms'' 33]\<rparr>] [] () =
     \<lparr>placeholder = None, loading = None, error = None,
      errors = [ParseError 31 ''@error block cannot have parameters'']\<rparr>"
proof -
  have h1: "name (sampleError\<lparr>parameters := [BlockParameter ''minimum 10ms'' 33]\<rparr>) =
      ''error''"
    by (simp add: sampleError_def)
  have h2: "parameters (sampleError\<lparr>parameters := [BlockParameter ''minimum 10ms'' 33]\<rparr>) \<noteq>
      []"
    by simp
  have span: "startSourceSpan
      (sampleError\<lparr>parameters := [BlockParameter ''minimum 10ms'' 33]\<rparr>) = 31"
    by (simp add: sampleError_def)
  show ?thesis
    using error_block_cannot_have_parameters [OF h1 h2, of sampleImports "()"] span
    by simp
qed

text \<open>
  Claim C9. A sub-parser that fails leaves the slot null, so a later block of the same
  kind is parsed and stored: for the list of an invalid placeholder (its sub-parser
  throws \<open>msg\<close>) and a valid one, the result holds the node of the second, and the only
  diagnostic is \<open>msg\<close> at the start span of the first, not
  \<open>@defer block can only have one @placeholder block\<close>.
\<close>

theorem failed_block_leaves_slot_free:
  assumes "name b1 = ''placeholder''" and "name b2 = ''placeholder''"
    and "parsePlaceholderBlock I b1 visitor = Inl (Error msg)"
    and "parsePlaceholderBlock I b2 visitor = Inr node"
  shows "parseConnectedBlocks I [b1, b2] [] visitor =
           \<lparr>placeholder = Some node, loading = None, error = None,
            errors = [ParseError (startSourceSpan b1) msg]\<rparr>"
  using assms
  by (simp add: parseConnectedBlocks_def isConnectedDeferLoopBlock_def
      switchConnectedBlock_def pushError_def)

text \<open>
  Claim C9 at a sample placeholder with the parameter \<open>foo\<close>, followed by the sample
  placeholder.
\<close>

theorem failed_block_leaves_slot_free_witness:
  "parseConnectedBlocks sampleImports
     [samplePlaceholder\<lparr>parameters := [BlockParameter ''foo'' 15], startSourceSpan := 51\<rparr>,
      samplePlaceholder] [] () =
     \<lparr>placeholder = Some (DeferredBlockPlaceholder [1] (Some 100) 10 11 12),
      loading = None, error = None,
      errors = [ParseError
        (startSourceSpan (samplePlaceholder\<lparr>parameters := [BlockParameter ''foo'' 15],
           startSourceSpan := 51\<rparr>))
        ''Unrecognized parameter in @placeholder block: \"foo\"'']\<rparr>"
proof (rule failed_block_leaves_slot_free)
  show "name (samplePlaceholder\<lparr>parameters := [BlockParameter ''foo'' 15],
      startSourceSpan := 51\<rparr>) = ''placeholder''"
    by (simp add: samplePlaceholder_def)
  show "name samplePlaceholder = ''placeholder''"
    by (simp add: samplePlaceholder_def)
  show "parsePlaceholderBlock sampleImports
      (samplePlaceholder\<lparr>parameters := [BlockParameter ''foo'' 15], startSourceSpan := 51\<rparr>)
      () = Inl (Error ''Unrecognized parameter in @placeholder block: \"foo\"'')"
    by code_simp
  show "parsePlaceholderBlock sampleImports samplePlaceholder () =
      Inr (DeferredBlockPlaceholder [1] (Some 100) 10 11 12)"
    by code_simp
qed

subsection \<open>The triggers of the primary block\<close>

text \<open>
  Claim C6. For the parameters \<open>when x > 0\<close>, \<open>on idle\<close>, \<open>prefetch when y\<close> and
  \<open>prefetch on hover\<close>, when the two collaborators accept them and register one key
  each without a diagnostic, the dispatch puts the conditional and the idle entry into
  the immediate triggers, the conditional and the hover entry into the prefetch triggers,
  and adds no diagnostic. The collaborators are only supposed to do so on the four calls
  that the dispatch makes: on the empty immediate set, on the immediate set with the
  conditional entry, on the empty prefetch set and on the prefetch set with the
  conditional entry. Each of the four expressions matches exactly one of the four
  patterns, and no string matches two of them.
\<close>

theorem four_triggers_dispatched:
  assumes "parseWhenTrigger I (BlockParameter ''when x > 0'' s1) bindingParser Map.empty errs =
      Inr (Map.empty(k1 \<mapsto> v1), errs)"
    and "parseOnTrigger I (BlockParameter ''on idle'' s2) (Map.empty(k1 \<mapsto> v1)) errs ph =
      Inr (Map.empty(k1 \<mapsto> v1, k2 \<mapsto> v2), errs)"
    and "parseWhenTrigger I (BlockParameter ''prefetch when y'' s3) bindingParser Map.empty
      errs = Inr (Map.empty(k3 \<mapsto> v3), errs)"
    and "parseOnTrigger I (BlockParameter ''prefetch on hover'' s4) (Map.empty(k3 \<mapsto> v3))
      errs ph = Inr (Map.empty(k3 \<mapsto> v3, k4 \<mapsto> v4), errs)"
  shows "parsePrimaryTriggers I
           [BlockParameter ''when x > 0'' s1, BlockParameter ''on idle'' s2,
            BlockParameter ''prefetch when y'' s3, BlockParameter ''prefetch on hover'' s4]
           bindingParser errs ph =
           Inr (Map.empty(k1 \<mapsto> v1, k2 \<mapsto> v2), Map.empty(k3 \<mapsto> v3, k4 \<mapsto> v4), errs) \<and>
         dom (Map.empty(k1 \<mapsto> v1, k2 \<mapsto> v2)) = {k1, k2} \<and>
         dom (Map.empty(k3 \<mapsto> v3, k4 \<mapsto> v4)) = {k3, k4} \<and>
         [WHEN_PARAMETER_PATTERN ''when x > 0'', ON_PARAMETER_PATTERN ''when x > 0'',
          PREFETCH_WHEN_PATTERN ''when x > 0'', PREFETCH_ON_PATTERN ''when x > 0''] =
           [True, False, False, False] \<and>
         [WHEN_PARAMETER_PATTERN ''on idle'', ON_PARAMETER_PATTERN ''on idle'',
          PREFETCH_WHEN_PATTERN ''on idle'', PREFETCH_ON_PATTERN ''on idle''] =
           [False, True, False, False] \<and>
         [WHEN_PARAMETER_PATTERN ''prefetch when y'', ON_PARAMETER_PATTERN ''prefetch when y'',
          PREFETCH_WHEN_PATTERN ''prefetch when y'', PREFETCH_ON_PATTERN ''prefetch when y''] =
           [False, False, True, False] \<and>
         [WHEN_PARAMETER_PATTERN ''prefetch on hover'', ON_PARAMETER_PATTERN ''prefetch on hover'',
          PREFETCH_WHEN_PATTERN ''prefetch on hover'',
          PREFETCH_ON_PATTERN ''prefetch on hover''] =
           [False, False, False, True] \<and>
         length (filter id [WHEN_PARAMETER_PATTERN s, ON_PARAMETER_PATTERN s,
           PREFETCH_WHEN_PATTERN s, PREFETCH_ON_PATTERN s]) \<le> 1"
proof -
  let ?p1 = "BlockParameter ''when x > 0'' s1" and ?p2 = "BlockParameter ''on idle'' s2"
    and ?p3 = "BlockParameter ''prefetch when y'' s3"
    and ?p4 = "BlockParameter ''prefetch on hover'' s4"
  have c1: "[WHEN_PARAMETER_PATTERN ''when x > 0'', ON_PARAMETER_PATTERN ''when x > 0'',
      PREFETCH_WHEN_PATTERN ''when x > 0'', PREFETCH_ON_PATTERN ''when x > 0''] =
      [True, False, False, False]"
    by code_simp
  have c2: "[WHEN_PARAMETER_PATTERN ''on idle'', ON_PARAMETER_PATTERN ''on idle'',
      PREFETCH_WHEN_PATTERN ''on idle'', PREFETCH_ON_PATTERN ''on idle''] =
      [False, True, False, False]"
    by code_simp
  have c3: "[WHEN_PARAMETER_PATTERN ''prefetch when y'',
      ON_PARAMETER_PATTERN ''prefetch when y'', PREFETCH_WHEN_PATTERN ''prefetch when y'',
      PREFETCH_ON_PATTERN ''prefetch when y''] = [False, False, True, False]"
    by code_simp
  have c4: "[WHEN_PARAMETER_PATTERN ''prefetch on hover'',
      ON_PARAMETER_PATTERN ''prefetch on hover'', PREFETCH_WHEN_PATTERN ''prefetch on hover'',
      PREFETCH_ON_PATTERN ''prefetch on hover''] = [False, False, False, True]"
    by code_simp
  have step4: "parsePrimaryTriggersLoop I bindingParser ph [?p4]
      (Map.empty(k1 \<mapsto> v1, k2 \<mapsto> v2), Map.empty(k3 \<mapsto> v3), errs) =
      Inr (Map.empty(k1 \<mapsto> v1, k2 \<mapsto> v2), Map.empty(k3 \<mapsto> v3, k4 \<mapsto> v4), errs)"
    using c4 assms(4) by simp
  have step3: "parsePrimaryTriggersLoop I bindingParser ph [?p3, ?p4]
      (Map.empty(k1 \<mapsto> v1, k2 \<mapsto> v2), Map.empty, errs) =
      Inr (Map.empty(k1 \<mapsto> v1, k2 \<mapsto> v2), Map.empty(k3 \<mapsto> v3, k4 \<mapsto> v4), errs)"
    using c3 assms(3) step4 by simp
  have step2: "parsePrimaryTriggersLoop I bindingParser ph [?p2, ?p3, ?p4]
      (Map.empty(k1 \<mapsto> v1), Map.empty, errs) =
      Inr (Map.empty(k1 \<mapsto> v1, k2 \<mapsto> v2), Map.empty(k3 \<mapsto> v3, k4 \<mapsto> v4), errs)"
    using c2 assms(2) step3 by simp
  have run: "parsePrimaryTriggers I [?p1, ?p2, ?p3, ?p4] bindingParser errs ph =
      Inr (Map.empty(k1 \<mapsto> v1, k2 \<mapsto> v2), Map.empty(k3 \<mapsto> v3, k4 \<mapsto> v4), errs)"
    using c1 assms(1) step2 by (simp add: parsePrimaryTriggers_def)
  have d: "dom (Map.empty(k1 \<mapsto> v1, k2 \<mapsto> v2)) = {k1, k2}"
    "dom (Map.empty(k3 \<mapsto> v3, k4 \<mapsto> v4)) = {k3, k4}"
    by auto
  from run d c1 c2 c3 c4 trigger_patterns_exclusive [of s] show ?thesis
    by blast
qed

text \<open>
  Claim C6 at the sample collaborators that keep track of the keys; they register the
  keys \<open>when\<close>, \<open>idle\<close> and \<open>hover\<close>.
\<close>

theorem four_triggers_dispatched_witness:
  "parsePrimaryTriggers sampleTrackingImports
     [BlockParameter ''when x > 0'' 3, BlockParameter ''on idle'' 4,
      BlockParameter ''prefetch when y'' 5, BlockParameter ''prefetch on hover'' 6]
     () [] None =
     Inr (Map.empty(''when'' \<mapsto> ''x > 0'', ''idle'' \<mapsto> ''on idle''),
          Map.empty(''when'' \<mapsto> ''when y'', ''hover'' \<mapsto> ''prefetch on hover''), [])"
proof -
  have k: "slice ''when x > 0'' (sampleStart ''when x > 0'') = ''x > 0''"
    "slice ''prefetch when y'' (sampleStart ''prefetch when y'') = ''when y''"
    "sampleKey ''on idle'' = ''idle''" "sampleKey ''prefetch on hover'' = ''hover''"
    by code_simp+
  have h1: "parseWhenTrigger sampleTrackingImports (BlockParameter ''when x > 0'' 3) ()
      Map.empty [] = Inr (Map.empty(''when'' \<mapsto> ''x > 0''), [])"
    using k by (simp add: sampleTrackingImports_def)
  have h2: "parseOnTrigger sampleTrackingImports (BlockParameter ''on idle'' 4)
      (Map.empty(''when'' \<mapsto> ''x > 0'')) [] None =
      Inr (Map.empty(''when'' \<mapsto> ''x > 0'', ''idle'' \<mapsto> ''on idle''), [])"
    using k by (simp add: sampleTrackingImports_def)
  have h3: "parseWhenTrigger sampleTrackingImports (BlockParameter ''prefetch when y'' 5) ()
      Map.empty [] = Inr (Map.empty(''when'' \<mapsto> ''when y''), [])"
    using k by (simp add: sampleTrackingImports_def)
  have h4: "parseOnTrigger sampleTrackingImports (BlockParameter ''prefetch on hover'' 6)
      (Map.empty(''when'' \<mapsto> ''when y'')) [] None =
      Inr (Map.empty(''when'' \<mapsto> ''when y'', ''hover'' \<mapsto> ''prefetch on hover''), [])"
    using k by (simp add: sampleTrackingImports_def)
  from four_triggers_dispatched [OF h1 h2 h3 h4]
  show ?thesis by blast
qed

text \<open>
  Claim C7. A parameter of the primary block that matches none of the four trigger
  patterns adds exactly one diagnostic \<open>Unrecognized trigger\<close> at its source span,
  leaves both trigger sets as they are, and the loop goes on with the parameters after
  it; alone, it gives two empty trigger sets and this one diagnostic.
\<close>

theorem unrecognized_trigger_is_reported:
  assumes "\<not> WHEN_PARAMETER_PATTERN (expression param)"
    and "\<not> ON_PARAMETER_PATTERN (expression param)"
    and "\<not> PREFETCH_WHEN_PATTERN (expression param)"
    and "\<not> PREFETCH_ON_PATTERN (expression param)"
  shows "parsePrimaryTriggersLoop I bindingParser ph (param # params)
           (triggers, prefetchTriggers, errs) =
         parsePrimaryTriggersLoop I bindingParser ph params
           (triggers, prefetchTriggers,
            errs @ [ParseError (paramSourceSpan param) ''Unrecognized trigger'']) \<and>
         parsePrimaryTriggers I [param] bindingParser errs ph =
           Inr (Map.empty, Map.empty,
                errs @ [ParseError (paramSourceSpan param) ''Unrecognized trigger''])"
  using assms by (simp add: parsePrimaryTriggers_def)

text \<open>Claim C7 at the parameter \<open>unknown foo\<close>, before a \<open>when\<close> trigger.\<close>

theorem unrecognized_trigger_is_reported_witness:
  "parsePrimaryTriggersLoop sampleImports () None
     (BlockParameter ''unknown foo'' 7 # [BlockParameter ''when x'' 8])
     (Map.empty, Map.empty, []) =
   parsePrimaryTriggersLoop sampleImports () None [BlockParameter ''when x'' 8]
     (Map.empty, Map.empty,
      [] @ [ParseError (paramSourceSpan (BlockParameter ''unknown foo'' (7::nat)))
        ''Unrecognized trigger'']) \<and>
   parsePrimaryTriggers sampleImports [BlockParameter ''unknown foo'' 7] () [] None =
     Inr (Map.empty, Map.empty,
          [] @ [ParseError (paramSourceSpan (BlockParameter ''unknown foo'' (7::nat)))
            ''Unrecognized trigger''])"
proof (rule unrecognized_trigger_is_reported)
  show "\<not> WHEN_PARAMETER_PATTERN (expression (BlockParameter ''unknown foo'' (7::nat)))"
    by code_simp
  show "\<not> ON_PARAMETER_PATTERN (expression (BlockParameter ''unknown foo'' (7::nat)))"
    by code_simp
  show "\<not> PREFETCH_WHEN_PATTERN (expression (BlockParameter ''unknown foo'' (7::nat)))"
    by code_simp
  show "\<not> PREFETCH_ON_PATTERN (expression (BlockParameter ''unknown foo'' (7::nat)))"
    by code_simp
qed

subsection \<open>The entry point\<close>

lemma parsePrimaryTriggersLoop_returns:
  assumes "\<And>param triggers errs.
      returns (parseWhenTrigger I param bindingParser triggers errs)"
    and "\<And>param triggers errs. returns (parseOnTrigger I param triggers errs ph)"
  shows "returns (parsePrimaryTriggersLoop I bindingParser ph params st)"
proof (induction params arbitrary: st)
  case Nil
  show ?case by (simp add: returns_def)
next
  case (Cons param params)
  obtain triggers prefetchTriggers errs where st: "st = (triggers, prefetchTriggers, errs)"
    by (cases st) auto
  have w: "\<exists>t e. parseWhenTrigger I param bindingParser trg errs = Inr (t, e)" for trg
    using assms(1) [of param trg errs] by (auto simp: returns_def split: sum.splits)
  have o: "\<exists>t e. parseOnTrigger I param trg errs ph = Inr (t, e)" for trg
    using assms(2) [of param trg errs] by (auto simp: returns_def split: sum.splits)
  show ?case
    using w [of triggers] w [of prefetchTriggers] o [of triggers] o [of prefetchTriggers]
      Cons.IH
    unfolding st by (auto simp del: split_paired_Ex)
qed

text \<open>
  Claim C8. When \<open>parseWhenTrigger\<close>, \<open>parseOnTrigger\<close> and \<open>visitAll\<close> do not raise,
  \<open>createDeferredBlock\<close> returns a node and a list of diagnostics for every primary
  block and every list of connected blocks: it never raises. (What the collaborators do
  inside the sub-parsers does not matter, it is caught.) In the classifier, an exception
  of the sub-parser of a block becomes one diagnostic with the message of the exception
  at the start span of the block, and the loop goes on.
\<close>

theorem createDeferredBlock_never_raises:
  assumes "\<And>param triggers errs.
      returns (parseWhenTrigger I param bindingParser triggers errs)"
    and "\<And>param triggers errs ph. returns (parseOnTrigger I param triggers errs ph)"
    and "\<And>nodes ctx. returns (visitAll I visitor nodes ctx)"
  shows "(\<exists>node errs.
            createDeferredBlock I ast connectedBlocks visitor bindingParser = Inr (node, errs)) \<and>
         (\<forall>block blocks st msg.
            isConnectedDeferLoopBlock (name block) \<and> slot (name block) st = None \<and>
            subParser I block visitor = Inl (Error msg) \<longrightarrow>
            parseConnectedBlocksLoop I visitor (block # blocks) st =
              parseConnectedBlocksLoop I visitor blocks
                (pushError (startSourceSpan block) msg st))"
proof -
  let ?c = "parseConnectedBlocks I connectedBlocks [] visitor"
  have "returns (parsePrimaryTriggers I (parameters ast) bindingParser (errors ?c)
      (placeholder ?c))"
    unfolding parsePrimaryTriggers_def
    by (rule parsePrimaryTriggersLoop_returns) (rule assms)+
  then obtain t p e where t: "parsePrimaryTriggers I (parameters ast) bindingParser
      (errors ?c) (placeholder ?c) = Inr (t, p, e)"
    by (auto simp: returns_def split: sum.splits)
  obtain visited where v: "visitAll I visitor (children ast) (children ast) = Inr visited"
    using assms(3) [of "children ast" "children ast"]
    by (auto simp: returns_def split: sum.splits)
  have first: "\<exists>node errs.
      createDeferredBlock I ast connectedBlocks visitor bindingParser = Inr (node, errs)"
    using t v by (simp add: createDeferredBlock_def Let_def)
  have second: "parseConnectedBlocksLoop I visitor (block # blocks) st =
      parseConnectedBlocksLoop I visitor blocks (pushError (startSourceSpan block) msg st)"
    if "isConnectedDeferLoopBlock (name block)" "slot (name block) st = None"
      "subParser I block visitor = Inl (Error msg)" for block blocks st msg
    using loop_caught [OF that(1) switch_raised [OF that]] .
  from first second show ?thesis by blast
qed

text \<open>
  Claim C8 at the sample collaborators, for the sample primary block with a placeholder
  whose duration does not parse, a loading block and an error block with a parameter:
  the call returns, with the two failures of the sub-parsers and the unrecognized trigger
  as its three diagnostics.
\<close>

theorem createDeferredBlock_never_raises_witness:
  "(\<exists>node errs.
     createDeferredBlock sampleImports sampleDefer
       [samplePlaceholder\<lparr>parameters := [BlockParameter ''minimum soon'' 15]\<rparr>,
        sampleLoading,
        sampleError\<lparr>parameters := [BlockParameter ''minimum 10ms'' 33]\<rparr>] () () =
     Inr (node, errs)) \<and>
   map_sum id snd
     (createDeferredBlock sampleImports sampleDefer
        [samplePlaceholder\<lparr>parameters := [BlockParameter ''minimum soon'' 15]\<rparr>,
         sampleLoading,
         sampleError\<lparr>parameters := [BlockParameter ''minimum 10ms'' 33]\<rparr>] () ()) =
     Inr [ParseError 11 ''Could not parse time value of parameter \"minimum\"'',
          ParseError 31 ''@error block cannot have parameters'',
          ParseError 7 ''Unrecognized trigger'']"
proof -
  have h1: "returns (parseWhenTrigger sampleImports param () triggers errs)"
    for param triggers errs
    by (simp add: sampleImports_def returns_def)
  have h2: "returns (parseOnTrigger sampleImports param triggers errs ph)"
    for param triggers errs ph
    by (simp add: sampleImports_def returns_def)
  have h3: "returns (visitAll sampleImports () nodes ctx)" for nodes ctx
    by (simp add: sampleImports_def returns_def)
  have diagnostics: "map_sum id snd
     (createDeferredBlock sampleImports sampleDefer
        [samplePlaceholder\<lparr>parameters := [BlockParameter ''minimum soon'' 15]\<rparr>,
         sampleLoading,
         sampleError\<lparr>parameters := [BlockParameter ''minimum 10ms'' 33]\<rparr>] () ()) =
     Inr [ParseError 11 ''Could not parse time value of parameter \"minimum\"'',
          ParseError 31 ''@error block cannot have parameters'',
          ParseError 7 ''Unrecognized trigger'']"
    by code_simp
  from createDeferredBlock_never_raises [of sampleImports "()" "()", OF h1 h2 h3] diagnostics
  show ?thesis by blast
qed

subsection \<open>Keyword recognition\<close>

text \<open>
  Claim C10. The keywords are recognized by regular expressions with the class \<open>\s\<close>,
  not by a literal space: each of \<open>when\<close>, \<open>on\<close>, \<open>minimum\<close>, \<open>after\<close> is
  recognized exactly when it is followed by one whitespace character (space, tab and
  line feed are such characters), and the prefetch forms exactly when \<open>prefetch\<close> is
  followed by one or more whitespace characters, the keyword and one whitespace
  character. So the primary parameter \<open>prefetch   when x\<close> is handed to
  \<open>parseWhenTrigger\<close> with the prefetch triggers, and the placeholder parameter
  \<open>minimum\<close>, tab, \<open>100ms\<close> takes the \<open>minimum\<close> branch.
\<close>

theorem keyword_recognition_is_whitespace_class:
  "(WHEN_PARAMETER_PATTERN s \<longleftrightarrow> (\<exists>c r. isWhitespace c \<and> s = ''when'' @ c # r)) \<and>
   (ON_PARAMETER_PATTERN s \<longleftrightarrow> (\<exists>c r. isWhitespace c \<and> s = ''on'' @ c # r)) \<and>
   (MINIMUM_PARAMETER_PATTERN s \<longleftrightarrow> (\<exists>c r. isWhitespace c \<and> s = ''minimum'' @ c # r)) \<and>
   (AFTER_PARAMETER_PATTERN s \<longleftrightarrow> (\<exists>c r. isWhitespace c \<and> s = ''after'' @ c # r)) \<and>
   (PREFETCH_WHEN_PATTERN s \<longleftrightarrow>
      (\<exists>ws c r. ws \<noteq> [] \<and> list_all isWhitespace ws \<and> isWhitespace c \<and>
         s = ''prefetch'' @ ws @ ''when'' @ c # r)) \<and>
   (PREFETCH_ON_PATTERN s \<longleftrightarrow>
      (\<exists>ws c r. ws \<noteq> [] \<and> list_all isWhitespace ws \<and> isWhitespace c \<and>
         s = ''prefetch'' @ ws @ ''on'' @ c # r)) \<and>
   isWhitespace CHR '' '' \<and> isWhitespace (CHR 0x09) \<and> isWhitespace (CHR 0x0A) \<and>
   parsePrimaryTriggers I [BlockParameter ''prefetch   when x'' span] bindingParser errs ph =
     (case parseWhenTrigger I (BlockParameter ''prefetch   when x'' span) bindingParser
             Map.empty errs of
        Inl e \<Rightarrow> Inl e
      | Inr (prefetchTriggers, errs') \<Rightarrow> Inr (Map.empty, prefetchTriggers, errs')) \<and>
   parsePlaceholderParameters I [BlockParameter (''minimum'' @ [CHR 0x09] @ ''100ms'') span]
       None =
     (case parsedTimeOf I (BlockParameter (''minimum'' @ [CHR 0x09] @ ''100ms'') span) of
        Inl e \<Rightarrow> Inl e
      | Inr None \<Rightarrow> Inl (Error ''Could not parse time value of parameter \"minimum\"'')
      | Inr (Some parsedTime) \<Rightarrow> Inr (Some parsedTime))"
proof -
  have a: "WHEN_PARAMETER_PATTERN s \<longleftrightarrow> (\<exists>c r. isWhitespace c \<and> s = ''when'' @ c # r)"
    unfolding WHEN_PARAMETER_PATTERN_def by (rule keywordPattern_iff)
  have b: "ON_PARAMETER_PATTERN s \<longleftrightarrow> (\<exists>c r. isWhitespace c \<and> s = ''on'' @ c # r)"
    unfolding ON_PARAMETER_PATTERN_def by (rule keywordPattern_iff)
  have c: "MINIMUM_PARAMETER_PATTERN s \<longleftrightarrow> (\<exists>c r. isWhitespace c \<and> s = ''minimum'' @ c # r)"
    unfolding MINIMUM_PARAMETER_PATTERN_def by (rule keywordPattern_iff)
  have d: "AFTER_PARAMETER_PATTERN s \<longleftrightarrow> (\<exists>c r. isWhitespace c \<and> s = ''after'' @ c # r)"
    unfolding AFTER_PARAMETER_PATTERN_def by (rule keywordPattern_iff)
  have e: "PREFETCH_WHEN_PATTERN s \<longleftrightarrow>
      (\<exists>ws c r. ws \<noteq> [] \<and> list_all isWhitespace ws \<and> isWhitespace c \<and>
         s = ''prefetch'' @ ws @ ''when'' @ c # r)"
    unfolding PREFETCH_WHEN_PATTERN_def by (rule prefetchPattern_iff [OF not_whitespace_w])
  have f: "PREFETCH_ON_PATTERN s \<longleftrightarrow>
      (\<exists>ws c r. ws \<noteq> [] \<and> list_all isWhitespace ws \<and> isWhitespace c \<and>
         s = ''prefetch'' @ ws @ ''on'' @ c # r)"
    unfolding PREFETCH_ON_PATTERN_def by (rule prefetchPattern_iff [OF not_whitespace_o])
  have g: "isWhitespace CHR '' '' \<and> isWhitespace (CHR 0x09) \<and> isWhitespace (CHR 0x0A)"
    by (simp add: isWhitespace_def)
  have p1: "\<not> WHEN_PARAMETER_PATTERN ''prefetch   when x''"
    and p2: "\<not> ON_PARAMETER_PATTERN ''prefetch   when x''"
    and p3: "PREFETCH_WHEN_PATTERN ''prefetch   when x''"
    by code_simp+
  have h: "parsePrimaryTriggers I [BlockParameter ''prefetch   when x'' span] bindingParser
       errs ph =
     (case parseWhenTrigger I (BlockParameter ''prefetch   when x'' span) bindingParser
             Map.empty errs of
        Inl e \<Rightarrow> Inl e
      | Inr (prefetchTriggers, errs') \<Rightarrow> Inr (Map.empty, prefetchTriggers, errs'))"
    using p1 p2 p3 by (simp add: parsePrimaryTriggers_def split: sum.splits)
  have m: "MINIMUM_PARAMETER_PATTERN (''minimum'' @ [CHR 0x09] @ ''100ms'')"
    by code_simp
  have i: "parsePlaceholderParameters I
       [BlockParameter (''minimum'' @ [CHR 0x09] @ ''100ms'') span] None =
     (case parsedTimeOf I (BlockParameter (''minimum'' @ [CHR 0x09] @ ''100ms'') span) of
        Inl e \<Rightarrow> Inl e
      | Inr None \<Rightarrow> Inl (Error ''Could not parse time value of parameter \"minimum\"'')
      | Inr (Some parsedTime) \<Rightarrow> Inr (Some parsedTime))"
    using m by (simp split: sum.splits option.splits)
  from a b c d e f g h i show ?thesis by blast
qed

end
